theory Spec2Isabelle
  imports Complex_Main
begin

section \<open>Python values\<close>

text \<open>
  A Python \<open>str\<close> is modelled as a \<open>string\<close>; one \<open>char\<close> stands for one code point
  below 256.  A Python \<open>float\<close> is modelled as the real number it denotes; the only
  float arithmetic in the code (doubling a delay of at most 8 seconds) is exact.
\<close>

text \<open>The value of a parsed JSON document: \<open>None\<close>, \<open>bool\<close>, \<open>int\<close>, \<open>float\<close>, \<open>str\<close>,
  \<open>list\<close> and \<open>dict\<close> (an association list in insertion order; the keys of a
  dictionary are distinct).\<close>

datatype json =
    JNull
  | JBool bool
  | JInt int
  | JFloat real
  | JStr string
  | JArr "json list"
  | JObj "(string \<times> json) list"

type_synonym pydict = "(string \<times> json) list"

text \<open>\<open>d.get(k, default)\<close>.\<close>

definition dict_get :: "pydict \<Rightarrow> string \<Rightarrow> json \<Rightarrow> json" where
  "dict_get d k dflt = (case map_of d k of None \<Rightarrow> dflt | Some v \<Rightarrow> v)"

text \<open>\<open>d[k] = v\<close>: an existing key keeps its place, a new key goes last.\<close>

fun dict_set :: "pydict \<Rightarrow> string \<Rightarrow> json \<Rightarrow> pydict" where
  "dict_set [] k v = [(k, v)]"
| "dict_set ((k', v') # d) k v = (if k' = k then (k, v) # d else (k', v') # dict_set d k v)"

text \<open>Truth value of a JSON value, as \<open>if x:\<close> and \<open>x or y\<close> test it.\<close>

fun truthy :: "json \<Rightarrow> bool" where
  "truthy JNull = False"
| "truthy (JBool b) = b"
| "truthy (JInt i) = (i \<noteq> 0)"
| "truthy (JFloat r) = (r \<noteq> 0)"
| "truthy (JStr s) = (s \<noteq> [])"
| "truthy (JArr xs) = (xs \<noteq> [])"
| "truthy (JObj d) = (d \<noteq> [])"

text \<open>\<open>type(x).__name__\<close>.\<close>

fun type_name :: "json \<Rightarrow> string" where
  "type_name JNull = ''NoneType''"
| "type_name (JBool b) = ''bool''"
| "type_name (JInt i) = ''int''"
| "type_name (JFloat r) = ''float''"
| "type_name (JStr s) = ''str''"
| "type_name (JArr xs) = ''list''"
| "type_name (JObj d) = ''dict''"

definition quote :: "string \<Rightarrow> string" where
  "quote s = [CHR 0x27] @ s @ [CHR 0x27]"

text \<open>\<open>str(n)\<close> for an integer.\<close>

definition digit_char :: "nat \<Rightarrow> char" where
  "digit_char n = ''0123456789'' ! n"

fun str_nat :: "nat \<Rightarrow> string" where
  "str_nat n = (if n < 10 then [digit_char n] else str_nat (n div 10) @ [digit_char (n mod 10)])"

declare str_nat.simps [simp del]

definition str_int :: "int \<Rightarrow> string" where
  "str_int i = (if i < 0 then CHR ''-'' # str_nat (nat (- i)) else str_nat (nat i))"

text \<open>The code points below 256 for which \<open>str.isspace\<close> holds; \<open>str.strip()\<close> removes
  them from both ends.\<close>

definition is_space :: "char \<Rightarrow> bool" where
  "is_space c = (c \<in> set [CHR 0x09, CHR 0x0A, CHR 0x0B, CHR 0x0C, CHR 0x0D,
                           CHR 0x1C, CHR 0x1D, CHR 0x1E, CHR 0x1F, CHR 0x20,
                           CHR 0x85, CHR 0xA0])"

definition strip :: "string \<Rightarrow> string" where
  "strip s = rev (dropWhile is_space (rev (dropWhile is_space s)))"

section \<open>Errors\<close>

text \<open>
  \<open>shared/errors.py\<close>: \<open>LLMRateLimit\<close> and \<open>LLMAuthError\<close> derive from \<open>LLMError\<close>.
  The other classes are the exceptions of the interpreter and of \<open>requests\<close> that the
  code can meet.  An exception carries its class and \<open>str(e)\<close>.
\<close>

datatype exc_class =
    LLMError | LLMRateLimit | LLMAuthError
  | RequestException
  | ValueError | TypeError | KeyError | IndexError | AttributeError | AssertionError

datatype exn = Exn (exc_class: exc_class) (message: string)

text \<open>\<open>isinstance(e, LLMError)\<close>.\<close>

fun is_LLMError :: "exc_class \<Rightarrow> bool" where
  "is_LLMError LLMError = True"
| "is_LLMError LLMRateLimit = True"
| "is_LLMError LLMAuthError = True"
| "is_LLMError _ = False"

section \<open>HTTP transport (\<open>shared/http_client.py\<close>)\<close>

text \<open>
  What \<open>requests\<close> hands back for one call of \<open>session.post\<close>: either the call raises a
  \<open>RequestException\<close> (connection failure, timeout), or it returns a response.
  Of a response the code reads \<open>status_code\<close>, \<open>text\<close>, \<open>raise_for_status()\<close> and
  \<open>json()\<close>; \<open>http_error\<close> is the text of the \<open>HTTPError\<close> that \<open>raise_for_status\<close> raises
  for a status from 400 to 599, and \<open>json_body\<close> is the parsed body or the text of the
  decoding error of \<open>requests\<close>, which is a \<open>RequestException\<close>.
\<close>

record response =
  status_code :: int
  resp_text :: string
  http_error :: string
  json_body :: "string + json"

datatype outcome = Raises string | Responds response

record request =
  rq_url :: string
  rq_headers :: "(string \<times> string) list option"
  rq_json :: "json option"
  rq_timeout :: int

text \<open>The client: the session answers its \<open>k\<close>-th call (from 0) with \<open>session k\<close>.\<close>

record HttpClient =
  session :: "nat \<Rightarrow> outcome"
  client_timeout_s :: int
  client_max_retries :: int

text \<open>What a call of \<open>post\<close> does besides returning: the requests it sent, in order,
  and the arguments of its calls of \<open>time.sleep\<close>, in order.\<close>

record trace =
  calls :: "request list"
  sleeps :: "real list"

definition raise_for_status :: "response \<Rightarrow> exn + unit" where
  "raise_for_status resp =
     (if 400 \<le> status_code resp \<and> status_code resp < 600
      then Inl (Exn RequestException (http_error resp)) else Inr ())"

text \<open>The body of the \<open>try\<close> block, lines 27 to 35.\<close>

definition attempt_once :: "outcome \<Rightarrow> exn + json" where
  "attempt_once oc =
     (case oc of
        Raises m \<Rightarrow> Inl (Exn RequestException m)
      | Responds resp \<Rightarrow>
          if status_code resp = 429 \<or> status_code resp = 408 then
            Inl (Exn LLMRateLimit (''Rate limited or timeout: '' @ str_int (status_code resp)
                                    @ '' '' @ take 200 (resp_text resp)))
          else if 500 \<le> status_code resp \<and> status_code resp < 600 then
            Inl (Exn LLMError (''Server error '' @ str_int (status_code resp)
                                @ '': '' @ take 200 (resp_text resp)))
          else if status_code resp = 401 \<or> status_code resp = 403 then
            Inl (Exn LLMAuthError (''Auth failed: '' @ take 200 (resp_text resp)))
          else
            (case raise_for_status resp of
               Inl e \<Rightarrow> Inl e
             | Inr u \<Rightarrow>
                 (case json_body resp of
                    Inl m \<Rightarrow> Inl (Exn RequestException m)
                  | Inr v \<Rightarrow> Inr v)))"

text \<open>How the \<open>for\<close> loop is left: by \<open>return\<close>, by an exception the \<open>except\<close> clause does
  not catch, or by \<open>break\<close> or exhaustion of the range with the current \<open>last_err\<close>.\<close>

datatype loop_exit = Returned json | Propagated exn | Exhausted "exn option"

text \<open>The loop over \<open>range(1, max_retries + 1)\<close>, lines 25 to 41.  The \<open>except\<close> clause
  catches \<open>requests.RequestException\<close> and \<open>LLMError\<close> with its subclasses.\<close>

fun post_loop ::
  "HttpClient \<Rightarrow> request \<Rightarrow> int list \<Rightarrow> real \<Rightarrow> exn option \<Rightarrow> trace \<Rightarrow> loop_exit \<times> trace" where
  "post_loop c rq [] delay last_err tr = (Exhausted last_err, tr)"
| "post_loop c rq (attempt # rest) delay last_err tr =
     (let tr1 = tr\<lparr>calls := calls tr @ [rq]\<rparr> in
      case attempt_once (session c (length (calls tr))) of
        Inr v \<Rightarrow> (Returned v, tr1)
      | Inl e \<Rightarrow>
          if exc_class e = RequestException \<or> is_LLMError (exc_class e) then
            (if attempt = client_max_retries c then (Exhausted (Some e), tr1)
             else post_loop c rq rest (min (delay * 2) 8) (Some e)
                    (tr1\<lparr>sleeps := sleeps tr1 @ [delay]\<rparr>))
          else (Propagated e, tr1))"

definition post ::
  "HttpClient \<Rightarrow> string \<Rightarrow> (string \<times> string) list option \<Rightarrow> json option
     \<Rightarrow> (exn + json) \<times> trace" where
  "post c url headers js =
     (case post_loop c \<lparr>rq_url = url, rq_headers = headers, rq_json = js,
                         rq_timeout = client_timeout_s c\<rparr>
             [1 .. client_max_retries c] 1 None \<lparr>calls = [], sleeps = []\<rparr> of
        (Returned v, tr) \<Rightarrow> (Inr v, tr)
      | (Propagated e, tr) \<Rightarrow> (Inl e, tr)
      | (Exhausted None, tr) \<Rightarrow> (Inl (Exn AssertionError []), tr)
      | (Exhausted (Some e), tr) \<Rightarrow>
          (Inl (Exn LLMError (''POST '' @ url @ '' failed after ''
                               @ str_int (client_max_retries c) @ '' attempts: '' @ message e)),
           tr))"

section \<open>Core types and constants (\<open>shared/core\<close>)\<close>

record ChatMessage =
  role :: string
  content :: string

definition DEFAULT_PROVIDER :: string where "DEFAULT_PROVIDER = ''ollama''"
definition DEFAULT_MODEL :: string where "DEFAULT_MODEL = ''llama3''"

text \<open>The float written \<open>0.2\<close>: the double nearest to one fifth.\<close>

definition DEFAULT_TEMPERATURE :: real where
  "DEFAULT_TEMPERATURE = 3602879701896397 / 18014398509481984"

definition DEFAULT_MAX_TOKENS :: "int option" where "DEFAULT_MAX_TOKENS = None"
definition DEFAULT_TIMEOUT_S :: int where "DEFAULT_TIMEOUT_S = 60"
definition DEFAULT_MAX_RETRIES :: int where "DEFAULT_MAX_RETRIES = 3"
definition OPENAI_BASE_URL :: string where "OPENAI_BASE_URL = ''https://api.openai.com''"
definition ANTHROPIC_BASE_URL :: string where "ANTHROPIC_BASE_URL = ''https://api.anthropic.com''"
definition ANTHROPIC_VERSION :: string where "ANTHROPIC_VERSION = ''2023-06-01''"
definition OLLAMA_BASE_URL :: string where "OLLAMA_BASE_URL = ''http://localhost:11434''"
definition MAX_CONTENT_LENGTH_FOR_AI :: nat where "MAX_CONTENT_LENGTH_FOR_AI = 2000"
definition MAX_CONTENT_LENGTH_FOR_TAGS :: nat where "MAX_CONTENT_LENGTH_FOR_TAGS = 1000"

section \<open>Configuration (\<open>shared/llm/config.py\<close>)\<close>

record LLMConfig =
  provider :: string
  model :: string
  temperature :: real
  max_tokens :: "int option"
  timeout_s :: int
  max_retries :: int
  openai_api_key :: "string option"
  openai_base_url :: string
  anthropic_api_key :: "string option"
  anthropic_api_url :: string
  anthropic_version :: string
  ollama_base_url :: string

text \<open>\<open>str.lower()\<close> on code points below 256: the letters A to Z and the upper-case
  letters of Latin-1 move up by 32, every other code point stays.\<close>

definition upper_chars :: string where
  "upper_chars = ''ABCDEFGHIJKLMNOPQRSTUVWXYZ'' @
     [CHR 0xC0, CHR 0xC1, CHR 0xC2, CHR 0xC3, CHR 0xC4, CHR 0xC5, CHR 0xC6, CHR 0xC7,
      CHR 0xC8, CHR 0xC9, CHR 0xCA, CHR 0xCB, CHR 0xCC, CHR 0xCD, CHR 0xCE, CHR 0xCF,
      CHR 0xD0, CHR 0xD1, CHR 0xD2, CHR 0xD3, CHR 0xD4, CHR 0xD5, CHR 0xD6,
      CHR 0xD8, CHR 0xD9, CHR 0xDA, CHR 0xDB, CHR 0xDC, CHR 0xDD, CHR 0xDE]"

definition lower_chars :: string where
  "lower_chars = ''abcdefghijklmnopqrstuvwxyz'' @
     [CHR 0xE0, CHR 0xE1, CHR 0xE2, CHR 0xE3, CHR 0xE4, CHR 0xE5, CHR 0xE6, CHR 0xE7,
      CHR 0xE8, CHR 0xE9, CHR 0xEA, CHR 0xEB, CHR 0xEC, CHR 0xED, CHR 0xEE, CHR 0xEF,
      CHR 0xF0, CHR 0xF1, CHR 0xF2, CHR 0xF3, CHR 0xF4, CHR 0xF5, CHR 0xF6,
      CHR 0xF8, CHR 0xF9, CHR 0xFA, CHR 0xFB, CHR 0xFC, CHR 0xFD, CHR 0xFE]"

definition lower_char :: "char \<Rightarrow> char" where
  "lower_char c = (case map_of (zip upper_chars lower_chars) c of None \<Rightarrow> c | Some l \<Rightarrow> l)"

definition lower :: "string \<Rightarrow> string" where
  "lower s = map lower_char s"

text \<open>\<open>s.rstrip('/')\<close>.\<close>

definition rstrip_slash :: "string \<Rightarrow> string" where
  "rstrip_slash s = rev (dropWhile (\<lambda>c. c = CHR ''/'') (rev s))"

text \<open>
  \<open>repr(s)\<close> of a string: single quotes, unless the string holds a single and no
  double quote; the quote character and the backslash are escaped, tab, newline and
  carriage return are written \<open>\t\<close>, \<open>\n\<close>, \<open>\r\<close>, and every other code point that is
  not printable is written \<open>\xhh\<close>.
\<close>

definition hex_digit :: "nat \<Rightarrow> char" where
  "hex_digit n = ''0123456789abcdef'' ! n"

definition printable :: "char \<Rightarrow> bool" where
  "printable c =
     (let n = (of_char c :: nat) in (32 \<le> n \<and> n < 127) \<or> (161 \<le> n \<and> n \<noteq> 173))"

definition escape_char :: "char \<Rightarrow> char \<Rightarrow> string" where
  "escape_char q c =
     (if c = q \<or> c = CHR 0x5C then [CHR 0x5C, c]
      else if c = CHR 0x09 then [CHR 0x5C, CHR ''t'']
      else if c = CHR 0x0A then [CHR 0x5C, CHR ''n'']
      else if c = CHR 0x0D then [CHR 0x5C, CHR ''r'']
      else if printable c then [c]
      else [CHR 0x5C, CHR ''x'', hex_digit ((of_char c :: nat) div 16),
            hex_digit ((of_char c :: nat) mod 16)])"

definition py_repr :: "string \<Rightarrow> string" where
  "py_repr s =
     (let q = (if CHR 0x27 \<in> set s \<and> CHR 0x22 \<notin> set s then CHR 0x22 else CHR 0x27)
      in q # concat (map (escape_char q) s) @ [q])"

text \<open>
  \<open>int(s)\<close> for a string, as CPython 3.11 converts it; \<open>Inl\<close> holds the message of the
  \<open>ValueError\<close>.  Leading white space is skipped (the white space of C and the two
  Latin-1 spaces beyond ASCII; the separators \<open>0x1C\<close> to \<open>0x1F\<close>, which \<open>str.strip\<close>
  removes, are not skipped), one sign may follow, then comes a run of decimal digits
  and underscores, which must hold a digit, must neither begin nor end with an
  underscore and must not hold two underscores in a row.  A run of more than 4300
  digits is refused before the rest of the string is looked at.  After the run only
  white space may follow.
\<close>

definition is_int_space :: "char \<Rightarrow> bool" where
  "is_int_space c = (c \<in> set [CHR 0x09, CHR 0x0A, CHR 0x0B, CHR 0x0C, CHR 0x0D, CHR 0x20,
                               CHR 0x85, CHR 0xA0])"

definition is_digit :: "char \<Rightarrow> bool" where
  "is_digit c = (c \<in> set ''0123456789'')"

definition digit_val :: "char \<Rightarrow> nat" where
  "digit_val c = (case map_of (zip ''0123456789'' [0, 1, 2, 3, 4, 5, 6, 7, 8, 9]) c of
                    None \<Rightarrow> 0 | Some n \<Rightarrow> n)"

definition digit_or_underscore :: "char \<Rightarrow> bool" where
  "digit_or_underscore c = (is_digit c \<or> c = CHR ''_'')"

fun double_underscore :: "string \<Rightarrow> bool" where
  "double_underscore (c # d # cs) =
     ((c = CHR ''_'' \<and> d = CHR ''_'') \<or> double_underscore (d # cs))"
| "double_underscore cs = False"

definition digits_value :: "string \<Rightarrow> nat" where
  "digits_value ds = foldl (\<lambda>acc c. acc * 10 + digit_val c) 0 ds"

definition invalid_literal :: "string \<Rightarrow> string" where
  "invalid_literal s = ''invalid literal for int() with base 10: '' @ take 200 (py_repr s)"

definition exceeds_limit :: "nat \<Rightarrow> string" where
  "exceeds_limit n =
     ''Exceeds the limit (4300 digits) for integer string conversion: value has '' @ str_nat n
     @ '' digits; use sys.set_int_max_str_digits() to increase the limit''"

definition py_int :: "string \<Rightarrow> string + int" where
  "py_int s =
     (let t = dropWhile is_int_space s;
          negative = (case t of [] \<Rightarrow> False | c # cs \<Rightarrow> c = CHR ''-'');
          u = (case t of [] \<Rightarrow> []
               | c # cs \<Rightarrow> if c = CHR ''+'' \<or> c = CHR ''-'' then cs else t);
          run = takeWhile digit_or_underscore u;
          rest = dropWhile digit_or_underscore u;
          digits = filter is_digit run
      in case run of
           [] \<Rightarrow> Inl (invalid_literal s)
         | c # cs \<Rightarrow>
             if c = CHR ''_'' \<or> last run = CHR ''_'' \<or> double_underscore run
             then Inl (invalid_literal s)
             else if 4300 < length digits then Inl (exceeds_limit (length digits))
             else if dropWhile is_int_space rest \<noteq> [] then Inl (invalid_literal s)
             else Inr (if negative then - int (digits_value digits)
                       else int (digits_value digits)))"

text \<open>\<open>os.getenv(name, default)\<close> on an environment \<open>env\<close>.\<close>

definition getenv :: "(string \<rightharpoonup> string) \<Rightarrow> string \<Rightarrow> string \<Rightarrow> string" where
  "getenv env name dflt = (case env name of None \<Rightarrow> dflt | Some v \<Rightarrow> v)"

text \<open>\<open>str(DEFAULT_TEMPERATURE)\<close>, \<open>str(DEFAULT_TIMEOUT_S)\<close>, \<open>str(DEFAULT_MAX_RETRIES)\<close>.\<close>

definition str_DEFAULT_TEMPERATURE :: string where
  "str_DEFAULT_TEMPERATURE = ''0.2''"

text \<open>
  \<open>LLMConfig.from_env\<close>, lines 51 to 96.  \<open>float()\<close> is a parameter: \<open>py_float s\<close> is the
  float that \<open>float(s)\<close> returns, \<open>None\<close> where it raises \<open>ValueError\<close>.  The keyword
  arguments are evaluated in the order written, so the first conversion that fails
  decides the exception.
\<close>

definition from_env :: "(string \<Rightarrow> real option) \<Rightarrow> (string \<rightharpoonup> string) \<Rightarrow> exn + LLMConfig" where
  "from_env py_float env =
     (let provider = lower (getenv env ''LLM_PROVIDER'' DEFAULT_PROVIDER) in
      if provider \<notin> set [''openai'', ''anthropic'', ''ollama'']
      then Inl (Exn ValueError (''Unsupported provider: '' @ provider))
      else
        case py_float (getenv env ''LLM_TEMPERATURE'' str_DEFAULT_TEMPERATURE) of
          None \<Rightarrow>
            Inl (Exn ValueError (''could not convert string to float: ''
                   @ py_repr (getenv env ''LLM_TEMPERATURE'' str_DEFAULT_TEMPERATURE)))
        | Some temp \<Rightarrow>
        case (case env ''LLM_MAX_TOKENS'' of
                None \<Rightarrow> Inr None
              | Some s \<Rightarrow> if s = [] then Inr None else map_sum id Some (py_int s)) of
          Inl m \<Rightarrow> Inl (Exn ValueError m)
        | Inr tokens \<Rightarrow>
        case py_int (getenv env ''LLM_TIMEOUT_S'' (str_int DEFAULT_TIMEOUT_S)) of
          Inl m \<Rightarrow> Inl (Exn ValueError m)
        | Inr timeout \<Rightarrow>
        case py_int (getenv env ''LLM_MAX_RETRIES'' (str_int DEFAULT_MAX_RETRIES)) of
          Inl m \<Rightarrow> Inl (Exn ValueError m)
        | Inr retries \<Rightarrow>
            Inr \<lparr>provider = provider,
                 model = getenv env ''LLM_MODEL'' DEFAULT_MODEL,
                 temperature = temp,
                 max_tokens = tokens,
                 timeout_s = timeout,
                 max_retries = retries,
                 openai_api_key = env ''OPENAI_API_KEY'',
                 openai_base_url = getenv env ''OPENAI_BASE_URL'' OPENAI_BASE_URL,
                 anthropic_api_key = env ''ANTHROPIC_API_KEY'',
                 anthropic_api_url = getenv env ''ANTHROPIC_API_URL'' ANTHROPIC_BASE_URL,
                 anthropic_version = getenv env ''ANTHROPIC_VERSION'' ANTHROPIC_VERSION,
                 ollama_base_url = getenv env ''OLLAMA_BASE_URL'' OLLAMA_BASE_URL\<rparr>)"

definition openai_url :: "LLMConfig \<Rightarrow> string" where
  "openai_url self = rstrip_slash (openai_base_url self) @ ''/v1/chat/completions''"

definition anthropic_url :: "LLMConfig \<Rightarrow> string" where
  "anthropic_url self = rstrip_slash (anthropic_api_url self) @ ''/v1/messages''"

definition ollama_url :: "LLMConfig \<Rightarrow> string" where
  "ollama_url self = rstrip_slash (ollama_base_url self) @ ''/api/chat''"

section \<open>Provider adapters (\<open>shared/llm/adapters.py\<close>)\<close>

text \<open>
  \<open>LLMResult\<close>.  The field \<open>text\<close> is declared \<open>str\<close>, but two adapters store in it
  whatever value the response holds, so its model is a JSON value; \<open>usage\<close> is
  \<open>JNull\<close> for \<open>None\<close>.
\<close>

record LLMResult =
  result_text :: json
  result_raw :: pydict
  result_provider :: string
  result_model :: string
  result_usage :: json

definition JSON_CT :: string where
  "JSON_CT = ''application/json''"

definition no_trace :: trace where
  "no_trace = \<lparr>calls = [], sleeps = []\<rparr>"

definition require :: "string option \<Rightarrow> string \<Rightarrow> exn + string" where
  "require v name =
     (case v of
        None \<Rightarrow> Inl (Exn LLMAuthError (''Missing '' @ name))
      | Some s \<Rightarrow> if s = [] then Inl (Exn LLMAuthError (''Missing '' @ name)) else Inr s)"

definition ensure_dict :: "json \<Rightarrow> string \<Rightarrow> exn + pydict" where
  "ensure_dict obj provider_name =
     (case obj of
        JObj d \<Rightarrow> Inr d
      | _ \<Rightarrow> Inl (Exn LLMError (provider_name @ '': expected JSON object, got <class ''
                                 @ quote (type_name obj) @ ''>'')))"

text \<open>The loop of \<open>split_system_message\<close> with its two variables \<open>system\<close> and \<open>core\<close>.\<close>

fun split_loop ::
  "ChatMessage list \<Rightarrow> string option \<Rightarrow> ChatMessage list \<Rightarrow> string option \<times> ChatMessage list" where
  "split_loop [] system core = (system, core)"
| "split_loop (msg # msgs) system core =
     (if role msg = ''system'' \<and> system = None
      then split_loop msgs (Some (content msg)) core
      else split_loop msgs system (core @ [msg]))"

definition split_system_message :: "ChatMessage list \<Rightarrow> string option \<times> ChatMessage list" where
  "split_system_message messages = split_loop messages None []"

text \<open>A \<open>ChatMessage\<close> as the JSON encoder sees it.\<close>

definition message_json :: "ChatMessage \<Rightarrow> json" where
  "message_json msg = JObj [(''role'', JStr (role msg)), (''content'', JStr (content msg))]"

text \<open>
  Subscription \<open>x[k]\<close> with a string key and \<open>x[0]\<close>, with the exceptions of the
  interpreter (texts as of CPython 3.11).  A dictionary made from JSON has string keys
  only, so \<open>d[0]\<close> is a \<open>KeyError\<close>.
\<close>

definition not_subscriptable :: "json \<Rightarrow> exn" where
  "not_subscriptable x = Exn TypeError (quote (type_name x) @ '' object is not subscriptable'')"

fun subscript_key :: "json \<Rightarrow> string \<Rightarrow> exn + json" where
  "subscript_key (JObj d) k =
     (case map_of d k of None \<Rightarrow> Inl (Exn KeyError (quote k)) | Some v \<Rightarrow> Inr v)"
| "subscript_key (JArr xs) k =
     Inl (Exn TypeError ''list indices must be integers or slices, not str'')"
| "subscript_key (JStr s) k =
     Inl (Exn TypeError (''string indices must be integers, not '' @ quote ''str''))"
| "subscript_key x k = Inl (not_subscriptable x)"

fun subscript_0 :: "json \<Rightarrow> exn + json" where
  "subscript_0 (JArr []) = Inl (Exn IndexError ''list index out of range'')"
| "subscript_0 (JArr (x # xs)) = Inr x"
| "subscript_0 (JStr []) = Inl (Exn IndexError ''string index out of range'')"
| "subscript_0 (JStr (c # cs)) = Inr (JStr [c])"
| "subscript_0 (JObj d) = Inl (Exn KeyError ''0'')"
| "subscript_0 x = Inl (not_subscriptable x)"

definition and_then :: "exn + 'a \<Rightarrow> ('a \<Rightarrow> exn + 'b) \<Rightarrow> exn + 'b" where
  "and_then r f = (case r of Inl e \<Rightarrow> Inl e | Inr x \<Rightarrow> f x)"

subsection \<open>OpenAI\<close>

definition OpenAI_headers :: "string \<Rightarrow> (string \<times> string) list" where
  "OpenAI_headers api_key =
     [(''Authorization'', ''Bearer '' @ api_key), (''Content-Type'', JSON_CT)]"

definition OpenAI_payload :: "LLMConfig \<Rightarrow> ChatMessage list \<Rightarrow> pydict" where
  "OpenAI_payload cfg messages =
     (let payload = [(''model'', JStr (model cfg)),
                     (''messages'', JArr (map message_json messages)),
                     (''temperature'', JFloat (temperature cfg))]
      in case max_tokens cfg of
           None \<Rightarrow> payload
         | Some n \<Rightarrow> dict_set payload ''max_tokens'' (JInt n))"

text \<open>The \<open>try\<close> block and the construction of the result, lines 113 to 124.\<close>

definition OpenAI_parse :: "LLMConfig \<Rightarrow> pydict \<Rightarrow> exn + LLMResult" where
  "OpenAI_parse cfg raw =
     (case and_then (and_then (and_then (subscript_key (JObj raw) ''choices'') subscript_0)
                       (\<lambda>choice. subscript_key choice ''message''))
             (\<lambda>msg. subscript_key msg ''content'') of
        Inl e \<Rightarrow>
          if exc_class e = KeyError \<or> exc_class e = IndexError \<or> exc_class e = TypeError
          then Inl (Exn LLMError (''OpenAI: unexpected response format: '' @ message e))
          else Inl e
      | Inr txt \<Rightarrow>
          Inr \<lparr>result_text = txt, result_raw = raw, result_provider = ''openai'',
               result_model = model cfg, result_usage = dict_get raw ''usage'' JNull\<rparr>)"

definition OpenAIAdapter_chat ::
  "LLMConfig \<Rightarrow> ChatMessage list \<Rightarrow> HttpClient \<Rightarrow> (exn + LLMResult) \<times> trace" where
  "OpenAIAdapter_chat cfg messages client =
     (case require (openai_api_key cfg) ''OPENAI_API_KEY'' of
        Inl e \<Rightarrow> (Inl e, no_trace)
      | Inr api_key \<Rightarrow>
          (case post client (openai_url cfg) (Some (OpenAI_headers api_key))
                  (Some (JObj (OpenAI_payload cfg messages))) of
             (Inl e, tr) \<Rightarrow> (Inl e, tr)
           | (Inr v, tr) \<Rightarrow>
               (case ensure_dict v ''openai'' of
                  Inl e \<Rightarrow> (Inl e, tr)
                | Inr raw \<Rightarrow> (OpenAI_parse cfg raw, tr))))"

subsection \<open>Anthropic\<close>

definition Anthropic_headers :: "LLMConfig \<Rightarrow> string \<Rightarrow> (string \<times> string) list" where
  "Anthropic_headers cfg api_key =
     [(''x-api-key'', api_key), (''anthropic-version'', anthropic_version cfg),
      (''content-type'', JSON_CT)]"

text \<open>One element of \<open>anthropic_messages\<close>, lines 141 to 147.\<close>

definition anthropic_message :: "ChatMessage \<Rightarrow> json" where
  "anthropic_message msg =
     JObj [(''role'', JStr (if role msg = ''user'' \<or> role msg = ''assistant''
                            then role msg else ''user'')),
           (''content'', JArr [JObj [(''type'', JStr ''text''), (''text'', JStr (content msg))]])]"

text \<open>\<open>cfg.max_tokens or 1024\<close>.\<close>

definition max_tokens_or_1024 :: "int option \<Rightarrow> int" where
  "max_tokens_or_1024 m = (case m of None \<Rightarrow> 1024 | Some n \<Rightarrow> if n = 0 then 1024 else n)"

definition Anthropic_payload :: "LLMConfig \<Rightarrow> ChatMessage list \<Rightarrow> pydict" where
  "Anthropic_payload cfg messages =
     (case split_system_message messages of
        (system_prompt, core_messages) \<Rightarrow>
          (let payload = [(''model'', JStr (model cfg)),
                          (''max_tokens'', JInt (max_tokens_or_1024 (max_tokens cfg))),
                          (''temperature'', JFloat (temperature cfg)),
                          (''messages'', JArr (map anthropic_message core_messages))]
           in case system_prompt of
                None \<Rightarrow> payload
              | Some s \<Rightarrow> if s = [] then payload else dict_set payload ''system'' (JStr s)))"

text \<open>\<open>"".join(items)\<close>: every item must be a string; the first one that is not raises
  \<open>TypeError\<close> with its position.\<close>

fun join_from :: "nat \<Rightarrow> json list \<Rightarrow> exn + string" where
  "join_from i [] = Inr []"
| "join_from i (JStr s # xs) = and_then (join_from (Suc i) xs) (\<lambda>t. Inr (s @ t))"
| "join_from i (x # xs) =
     Inl (Exn TypeError (''sequence item '' @ str_nat i @ '': expected str instance, ''
                          @ type_name x @ '' found''))"

text \<open>The generator of lines 169 to 172: of every block that is a dictionary with
  \<open>type\<close> equal to \<open>"text"\<close>, the value \<open>block.get("text", "")\<close>.\<close>

fun text_items :: "json list \<Rightarrow> json list" where
  "text_items [] = []"
| "text_items (JObj b # blocks) =
     (if dict_get b ''type'' JNull = JStr ''text''
      then dict_get b ''text'' (JStr []) # text_items blocks
      else text_items blocks)"
| "text_items (x # blocks) = text_items blocks"

definition Anthropic_parse :: "LLMConfig \<Rightarrow> pydict \<Rightarrow> exn + LLMResult" where
  "Anthropic_parse cfg raw =
     (case and_then (subscript_key (JObj raw) ''content'')
             (\<lambda>blocks. case blocks of
                          JArr bs \<Rightarrow> and_then (join_from 0 (text_items bs)) (\<lambda>t. Inr (strip t))
                        | _ \<Rightarrow> Inl (Exn TypeError ''content is not a list'')) of
        Inl e \<Rightarrow>
          if exc_class e = KeyError \<or> exc_class e = TypeError
          then Inl (Exn LLMError (''Anthropic: unexpected response format: '' @ message e))
          else Inl e
      | Inr txt \<Rightarrow>
          Inr \<lparr>result_text = JStr txt, result_raw = raw, result_provider = ''anthropic'',
               result_model = model cfg, result_usage = dict_get raw ''usage'' JNull\<rparr>)"

definition AnthropicAdapter_chat ::
  "LLMConfig \<Rightarrow> ChatMessage list \<Rightarrow> HttpClient \<Rightarrow> (exn + LLMResult) \<times> trace" where
  "AnthropicAdapter_chat cfg messages client =
     (case require (anthropic_api_key cfg) ''ANTHROPIC_API_KEY'' of
        Inl e \<Rightarrow> (Inl e, no_trace)
      | Inr api_key \<Rightarrow>
          (case post client (anthropic_url cfg) (Some (Anthropic_headers cfg api_key))
                  (Some (JObj (Anthropic_payload cfg messages))) of
             (Inl e, tr) \<Rightarrow> (Inl e, tr)
           | (Inr v, tr) \<Rightarrow>
               (case ensure_dict v ''anthropic'' of
                  Inl e \<Rightarrow> (Inl e, tr)
                | Inr raw \<Rightarrow> (Anthropic_parse cfg raw, tr))))"

subsection \<open>Ollama\<close>

definition Ollama_payload :: "LLMConfig \<Rightarrow> ChatMessage list \<Rightarrow> pydict" where
  "Ollama_payload cfg messages =
     (let options = [(''temperature'', JFloat (temperature cfg))]
      in [(''model'', JStr (model cfg)),
          (''messages'', JArr (map message_json messages)),
          (''stream'', JBool False),
          (''options'', JObj (case max_tokens cfg of
                                None \<Rightarrow> options
                              | Some n \<Rightarrow> dict_set options ''num_predict'' (JInt n)))])"

text \<open>The \<open>try\<close> block catches every \<open>Exception\<close>, lines 207 to 213.\<close>

definition Ollama_parse :: "LLMConfig \<Rightarrow> pydict \<Rightarrow> exn + LLMResult" where
  "Ollama_parse cfg raw =
     (case (case dict_get raw ''message'' (JObj []) of
              JObj msg \<Rightarrow>
                (let c = dict_get msg ''content'' (JStr []) in
                 Inr (if truthy c then c else JStr []))
            | _ \<Rightarrow> Inl (Exn TypeError ''message is not an object'')) of
        Inl e \<Rightarrow> Inl (Exn LLMError (''Ollama: unexpected response format: '' @ message e))
      | Inr txt \<Rightarrow>
          Inr \<lparr>result_text = txt, result_raw = raw, result_provider = ''ollama'',
               result_model = model cfg,
               result_usage = JObj [(''eval_count'', dict_get raw ''eval_count'' JNull)]\<rparr>)"

definition OllamaAdapter_chat ::
  "LLMConfig \<Rightarrow> ChatMessage list \<Rightarrow> HttpClient \<Rightarrow> (exn + LLMResult) \<times> trace" where
  "OllamaAdapter_chat cfg messages client =
     (case post client (ollama_url cfg) None (Some (JObj (Ollama_payload cfg messages))) of
        (Inl e, tr) \<Rightarrow> (Inl e, tr)
      | (Inr v, tr) \<Rightarrow>
          (case ensure_dict v ''ollama'' of
             Inl e \<Rightarrow> (Inl e, tr)
           | Inr raw \<Rightarrow> (Ollama_parse cfg raw, tr)))"

section \<open>Client (\<open>shared/llm/client.py\<close>)\<close>

datatype adapter = OpenAIAdapter | AnthropicAdapter | OllamaAdapter

fun adapter_chat ::
  "adapter \<Rightarrow> LLMConfig \<Rightarrow> ChatMessage list \<Rightarrow> HttpClient \<Rightarrow> (exn + LLMResult) \<times> trace" where
  "adapter_chat OpenAIAdapter = OpenAIAdapter_chat"
| "adapter_chat AnthropicAdapter = AnthropicAdapter_chat"
| "adapter_chat OllamaAdapter = OllamaAdapter_chat"

record LLM =
  cfg :: LLMConfig
  llm_client :: HttpClient
  llm_adapters :: "(string \<times> adapter) list"

text \<open>\<open>LLM.__init__\<close>; the session that \<open>HttpClient\<close> opens is the parameter \<open>sess\<close>.\<close>

definition LLM_init :: "LLMConfig \<Rightarrow> (nat \<Rightarrow> outcome) \<Rightarrow> LLM" where
  "LLM_init config sess =
     \<lparr>cfg = config,
      llm_client = \<lparr>session = sess, client_timeout_s = timeout_s config,
                    client_max_retries = max_retries config\<rparr>,
      llm_adapters = [(''openai'', OpenAIAdapter), (''anthropic'', AnthropicAdapter),
                      (''ollama'', OllamaAdapter)]\<rparr>"

text \<open>\<open>LLM.from_env\<close>.\<close>

definition LLM_from_env ::
  "(string \<Rightarrow> real option) \<Rightarrow> (string \<rightharpoonup> string) \<Rightarrow> (nat \<Rightarrow> outcome) \<Rightarrow> exn + LLM" where
  "LLM_from_env py_float env sess =
     (case from_env py_float env of Inl e \<Rightarrow> Inl e | Inr config \<Rightarrow> Inr (LLM_init config sess))"

definition chat :: "LLM \<Rightarrow> ChatMessage list \<Rightarrow> (exn + LLMResult) \<times> trace" where
  "chat self messages =
     (case map_of (llm_adapters self) (provider (cfg self)) of
        None \<Rightarrow> (Inl (Exn LLMError (''Unsupported provider: '' @ provider (cfg self))), no_trace)
      | Some ad \<Rightarrow> adapter_chat ad (cfg self) messages (llm_client self))"

text \<open>\<open>s.split('\n')\<close>.\<close>

fun split_lines :: "string \<Rightarrow> string list" where
  "split_lines [] = [[]]"
| "split_lines (c # cs) =
     (if c = CHR 0x0A then [] # split_lines cs
      else (case split_lines cs of
              [] \<Rightarrow> [[c]]
            | w # ws \<Rightarrow> (c # w) # ws))"

text \<open>\<open>xs[:n]\<close>: a negative \<open>n\<close> counts from the end.\<close>

definition slice_to :: "'a list \<Rightarrow> int \<Rightarrow> 'a list" where
  "slice_to xs n = (if 0 \<le> n then take (nat n) xs else take (length xs - nat (- n)) xs)"

text \<open>The \<open>messages\<close> of \<open>extract_tags\<close>, lines 99 to 107.\<close>

definition tags_messages :: "string \<Rightarrow> int \<Rightarrow> ChatMessage list" where
  "tags_messages txt max_tags =
     (let content = take MAX_CONTENT_LENGTH_FOR_TAGS txt in
      [\<lparr>role = ''system'',
        content = ''Extract up to '' @ str_int max_tags
          @ '' relevant tags from the text. Return only the tags, one per line.''\<rparr>,
       \<lparr>role = ''user'', content = content\<rparr>])"

text \<open>\<open>extract_tags\<close>; a \<open>result.text\<close> that is not a string has no \<open>split\<close>.\<close>

definition extract_tags :: "LLM \<Rightarrow> string \<Rightarrow> int \<Rightarrow> (exn + string list) \<times> trace" where
  "extract_tags self txt max_tags =
     (case chat self (tags_messages txt max_tags) of
        (Inl e, tr) \<Rightarrow> (Inl e, tr)
      | (Inr result, tr) \<Rightarrow>
          (case result_text result of
             JStr s \<Rightarrow>
               (Inr (slice_to (concat (map (\<lambda>tag. if strip tag \<noteq> [] then [strip tag] else [])
                                         (split_lines s))) max_tags), tr)
           | v \<Rightarrow>
               (Inl (Exn AttributeError (quote (type_name v) @ '' object has no attribute ''
                                         @ quote ''split'')), tr)))"

section \<open>Sample inputs\<close>

text \<open>Mocked responses, clients and configurations after the repository's tests
  (\<open>tests/test_http_client.py\<close>, \<open>tests/test_llm_adapters.py\<close>, \<open>tests/test_llm_client.py\<close>).\<close>

definition ok_response :: "json \<Rightarrow> response" where
  "ok_response body = \<lparr>status_code = 200, resp_text = [], http_error = [], json_body = Inr body\<rparr>"

definition error_response :: "int \<Rightarrow> string \<Rightarrow> response" where
  "error_response st txt = \<lparr>status_code = st, resp_text = txt, http_error = [], json_body = Inl []\<rparr>"

definition always :: "response \<Rightarrow> nat \<Rightarrow> outcome" where
  "always resp k = Responds resp"

definition mock_client :: "response \<Rightarrow> int \<Rightarrow> HttpClient" where
  "mock_client resp n = \<lparr>session = always resp, client_timeout_s = 30, client_max_retries = n\<rparr>"

definition test_url :: string where
  "test_url = ''https://api.example.com/test''"

definition test_request :: request where
  "test_request = \<lparr>rq_url = test_url, rq_headers = None, rq_json = None, rq_timeout = 30\<rparr>"

definition base_config :: LLMConfig where
  "base_config =
     \<lparr>provider = ''ollama'', model = ''llama3'', temperature = DEFAULT_TEMPERATURE,
      max_tokens = None, timeout_s = 60, max_retries = 3,
      openai_api_key = None, openai_base_url = OPENAI_BASE_URL,
      anthropic_api_key = None, anthropic_api_url = ANTHROPIC_BASE_URL,
      anthropic_version = ANTHROPIC_VERSION, ollama_base_url = OLLAMA_BASE_URL\<rparr>"

definition openai_config :: LLMConfig where
  "openai_config = base_config\<lparr>provider := ''openai'', model := ''gpt-4'',
                                max_tokens := Some 100, openai_api_key := Some ''test-openai-key''\<rparr>"

definition anthropic_config :: LLMConfig where
  "anthropic_config = base_config\<lparr>provider := ''anthropic'', model := ''claude-3-sonnet-20240229'',
                                   max_tokens := Some 200,
                                   anthropic_api_key := Some ''test-anthropic-key''\<rparr>"

definition ollama_config :: LLMConfig where
  "ollama_config = base_config\<lparr>max_tokens := Some 100\<rparr>"

definition user_test :: "ChatMessage list" where
  "user_test = [\<lparr>role = ''user'', content = ''test''\<rparr>]"

text \<open>\<open>float()\<close> on the one literal that the defaults need.\<close>

definition float_of_default :: "string \<Rightarrow> real option" where
  "float_of_default s = (if s = ''0.2'' then Some DEFAULT_TEMPERATURE else None)"

definition mock_request :: "string \<Rightarrow> (string \<times> string) list option \<Rightarrow> pydict \<Rightarrow> request" where
  "mock_request url headers payload =
     \<lparr>rq_url = url, rq_headers = headers, rq_json = Some (JObj payload), rq_timeout = 30\<rparr>"

text \<open>A client of the facade whose session always answers 200 with the given body.\<close>

definition mock_llm :: "LLMConfig \<Rightarrow> json \<Rightarrow> LLM" where
  "mock_llm config body = LLM_init config (always (ok_response body))"

definition anthropic_two_blocks :: pydict where
  "anthropic_two_blocks =
     [(''content'', JArr [JObj [(''type'', JStr ''text''), (''text'', JStr ''a'')],
                          JObj [(''type'', JStr ''text''), (''text'', JStr ''b'')]])]"

definition anthropic_not_a_list :: pydict where
  "anthropic_not_a_list = [(''content'', JStr ''not a list'')]"

definition anthropic_null_text :: pydict where
  "anthropic_null_text = [(''content'', JArr [JObj [(''type'', JStr ''text''), (''text'', JNull)]])]"

definition anthropic_request :: request where
  "anthropic_request =
     mock_request (anthropic_url anthropic_config)
       (Some (Anthropic_headers anthropic_config ''test-anthropic-key''))
       (Anthropic_payload anthropic_config user_test)"

definition openai_null_content :: pydict where
  "openai_null_content =
     [(''choices'', JArr [JObj [(''message'', JObj [(''role'', JStr ''assistant''),
                                                    (''content'', JNull)])]])]"

definition openai_request :: request where
  "openai_request =
     mock_request (openai_url openai_config) (Some (OpenAI_headers ''test-openai-key''))
       (OpenAI_payload openai_config user_test)"

definition ollama_request :: request where
  "ollama_request =
     mock_request (ollama_url ollama_config) None (Ollama_payload ollama_config user_test)"

definition tags_body :: pydict where
  "tags_body =
     [(''message'', JObj [(''content'',
         JStr '' tag1 \<newline>\<newline>tag2\<newline>  \<newline>tag3\<newline>tag4\<newline>tag5\<newline>tag6'')])]"

definition three_lines :: pydict where
  "three_lines = [(''message'', JObj [(''content'', JStr ''a\<newline>b\<newline>c'')])]"

definition llm_request :: "LLMConfig \<Rightarrow> ChatMessage list \<Rightarrow> request" where
  "llm_request config messages =
     \<lparr>rq_url = ollama_url config, rq_headers = None,
      rq_json = Some (JObj (Ollama_payload config messages)), rq_timeout = timeout_s config\<rparr>"

definition bad_timeout_env :: "(string \<times> string) list" where
  "bad_timeout_env = [(''LLM_PROVIDER'', ''ollama''), (''LLM_TIMEOUT_S'', ''abc'')]"

definition conversation :: "ChatMessage list" where
  "conversation =
     [\<lparr>role = ''system'', content = ''You are a helpful assistant.''\<rparr>,
      \<lparr>role = ''user'', content = ''Question''\<rparr>,
      \<lparr>role = ''assistant'', content = ''Answer''\<rparr>,
      \<lparr>role = ''tool'', content = ''Result''\<rparr>,
      \<lparr>role = ''system'', content = ''Second system''\<rparr>]"

definition mixed_case_env :: "(string \<times> string) list" where
  "mixed_case_env =
     [(''LLM_PROVIDER'', ''OpenAI''), (''LLM_MODEL'', ''gpt-4''), (''LLM_MAX_TOKENS'', ''100''),
      (''LLM_TIMEOUT_S'', '' 45 ''), (''LLM_MAX_RETRIES'', ''5''),
      (''OPENAI_API_KEY'', ''test-openai-key'')]"

definition upper_case_env :: "(string \<times> string) list" where
  "upper_case_env = [(''LLM_PROVIDER'', ''OLLAMA'')]"

section \<open>Auxiliary notions for the statements\<close>

text \<open>A content block whose \<open>type\<close> is \<open>"text"\<close>.\<close>

definition is_text_block :: "json \<Rightarrow> bool" where
  "is_text_block b =
     (case b of JObj d \<Rightarrow> map_of d ''type'' = Some (JStr ''text'') | _ \<Rightarrow> False)"

text \<open>The \<open>text\<close> field of a block when it is a string; an absent field counts as the
  empty string; a field that is not a string has no text.\<close>

definition block_text :: "json \<Rightarrow> string option" where
  "block_text b =
     (case b of
        JObj d \<Rightarrow>
          (case map_of d ''text'' of
             None \<Rightarrow> Some []
           | Some (JStr s) \<Rightarrow> Some s
           | Some _ \<Rightarrow> None)
      | _ \<Rightarrow> Some [])"

definition is_list :: "json \<Rightarrow> bool" where
  "is_list v = (case v of JArr xs \<Rightarrow> True | _ \<Rightarrow> False)"

definition is_object :: "json \<Rightarrow> bool" where
  "is_object v = (case v of JObj d \<Rightarrow> True | _ \<Rightarrow> False)"

definition is_string :: "json \<Rightarrow> bool" where
  "is_string v = (case v of JStr s \<Rightarrow> True | _ \<Rightarrow> False)"

text \<open>The value that the environment supplies for a variable, or the default that the
  specification documents for it (section 6).\<close>

definition documented_default :: "string \<Rightarrow> string" where
  "documented_default name =
     (if name = ''LLM_PROVIDER'' then ''ollama''
      else if name = ''LLM_MODEL'' then ''llama3''
      else if name = ''LLM_TEMPERATURE'' then ''0.2''
      else if name = ''LLM_TIMEOUT_S'' then ''60''
      else if name = ''LLM_MAX_RETRIES'' then ''3''
      else if name = ''OPENAI_BASE_URL'' then ''https://api.openai.com''
      else if name = ''ANTHROPIC_API_URL'' then ''https://api.anthropic.com''
      else if name = ''ANTHROPIC_VERSION'' then ''2023-06-01''
      else if name = ''OLLAMA_BASE_URL'' then ''http://localhost:11434''
      else [])"

definition supplied :: "(string \<rightharpoonup> string) \<Rightarrow> string \<Rightarrow> string" where
  "supplied env name = (case env name of None \<Rightarrow> documented_default name | Some v \<Rightarrow> v)"

text \<open>The delays of \<open>n\<close> successive sleeps when the first one lasts \<open>d\<close>.\<close>

fun backoff :: "real \<Rightarrow> nat \<Rightarrow> real list" where
  "backoff d 0 = []"
| "backoff d (Suc n) = d # backoff (min (d * 2) 8) n"

text \<open>An exception that the \<open>except\<close> clause of \<open>post\<close> catches.\<close>

definition caught :: "exn \<Rightarrow> bool" where
  "caught e = (exc_class e = RequestException \<or> is_LLMError (exc_class e))"

section \<open>Transport: retries and backoff\<close>

lemma str_int_numerals [simp]:
  "str_int 2 = ''2''" "str_int 3 = ''3''" "str_int 6 = ''6''" "str_int 60 = ''60''"
  "str_int 500 = ''500''"
  by (simp_all add: str_int_def str_nat.simps digit_char_def)

lemma backoff_pow: "backoff (min (2 ^ j) 8) n = map (\<lambda>k. min (2 ^ k) 8) [j ..< j + n]"
proof (induction n arbitrary: j)
  case 0
  then show ?case by simp
next
  case (Suc n)
  have step: "min (min (2 ^ j) 8 * 2) 8 = min (2 ^ Suc j) (8::real)"
    by (auto simp: min_def)
  have "[j ..< j + Suc n] = j # [Suc j ..< Suc j + n]"
    by (simp add: upt_rec)
  then show ?case using Suc.IH [of "Suc j"] step by simp
qed

lemma backoff_from_one: "backoff 1 n = map (\<lambda>k. min (2 ^ k) 8) [0 ..< n]"
  using backoff_pow [of 0 n] by simp

text \<open>When every attempt ends in a caught exception, the loop runs through all remaining
  attempts, sleeps between them, and is left with the exception of the last attempt.\<close>

lemma post_loop_all_fail:
  assumes fail: "\<And>k. \<exists>e. attempt_once (session c k) = Inl e \<and> caught e"
  shows "n = nat (client_max_retries c - a) \<Longrightarrow> a \<le> client_max_retries c \<Longrightarrow>
         post_loop c rq [a .. client_max_retries c] d lerr tr =
           (Exhausted (Some (projl (attempt_once (session c (length (calls tr) + n))))),
            tr\<lparr>calls := calls tr @ replicate (Suc n) rq, sleeps := sleeps tr @ backoff d n\<rparr>)"
proof (induction n arbitrary: a d lerr tr)
  case 0
  then have a: "a = client_max_retries c" by simp
  obtain e where e: "attempt_once (session c (length (calls tr))) = Inl e" "caught e"
    using fail by blast
  have "[a .. client_max_retries c] = [a]" using a by (simp add: upto_rec1)
  then show ?case using e a by (simp add: caught_def)
next
  case (Suc n)
  then have lt: "a < client_max_retries c" and n: "n = nat (client_max_retries c - (a + 1))"
    by linarith+
  obtain e where e: "attempt_once (session c (length (calls tr))) = Inl e" "caught e"
    using fail by blast
  have up: "[a .. client_max_retries c] = a # [a + 1 .. client_max_retries c]"
    using lt by (simp add: upto_rec1)
  have ih: "post_loop c rq [a + 1 .. client_max_retries c] (min (d * 2) 8) (Some e)
              (tr\<lparr>calls := calls tr @ [rq], sleeps := sleeps tr @ [d]\<rparr>) =
            (Exhausted (Some (projl (attempt_once (session c (length (calls tr) + Suc n))))),
             tr\<lparr>calls := calls tr @ replicate (Suc (Suc n)) rq,
                sleeps := sleeps tr @ backoff d (Suc n)\<rparr>)"
    using Suc.IH [OF n, of "min (d * 2) 8" "Some e"
                    "tr\<lparr>calls := calls tr @ [rq], sleeps := sleeps tr @ [d]\<rparr>"] lt
    by (simp add: replicate_append_same)
  show ?case using e lt ih by (simp add: up caught_def)
qed

lemma attempt_once_5xx:
  "500 \<le> status_code r \<Longrightarrow> status_code r < 600 \<Longrightarrow>
   attempt_once (Responds r) =
     Inl (Exn LLMError (''Server error '' @ str_int (status_code r) @ '': ''
                         @ take 200 (resp_text r)))"
  by (simp add: attempt_once_def)

text \<open>A first attempt that succeeds ends the call.\<close>

lemma post_first_attempt:
  assumes "1 \<le> client_max_retries c" and "attempt_once (session c 0) = Inr v"
  shows "post c url headers js =
           (Inr v, \<lparr>calls = [\<lparr>rq_url = url, rq_headers = headers, rq_json = js,
                               rq_timeout = client_timeout_s c\<rparr>],
                    sleeps = []\<rparr>)"
proof -
  have up: "[1 .. client_max_retries c] = 1 # [2 .. client_max_retries c]"
    using assms(1) by (simp add: upto_rec1)
  show ?thesis by (simp add: post_def up assms(2))
qed

lemma post_loop_propagated:
  "post_loop c rq attempts d lerr tr = (Propagated e, tr') \<Longrightarrow> \<not> caught e"
  by (induction attempts arbitrary: d lerr tr)
     (auto simp: Let_def caught_def split: sum.splits if_splits)

text \<open>Whatever the session answers, \<open>post\<close> never ends with an \<open>LLMAuthError\<close> or an
  \<open>LLMRateLimit\<close>: the loop catches both, and what leaves it is a plain \<open>LLMError\<close>.\<close>

lemma post_error_class:
  assumes "post c url headers js = (Inl e, t)"
  shows "exc_class e \<noteq> LLMAuthError \<and> exc_class e \<noteq> LLMRateLimit"
proof -
  let ?r = "post_loop c \<lparr>rq_url = url, rq_headers = headers, rq_json = js,
                          rq_timeout = client_timeout_s c\<rparr>
              [1 .. client_max_retries c] 1 None \<lparr>calls = [], sleeps = []\<rparr>"
  obtain x tr where r: "?r = (x, tr)" by (cases ?r)
  show ?thesis
  proof (cases x)
    case (Returned v)
    then show ?thesis using assms r by (simp add: post_def)
  next
    case (Propagated e')
    then have "\<not> caught e'" using r post_loop_propagated by blast
    then show ?thesis using assms r Propagated by (auto simp: post_def caught_def)
  next
    case (Exhausted l)
    then show ?thesis using assms r by (cases l) (auto simp: post_def)
  qed
qed

text \<open>
  C1.  The claim: a response with status 401, 403, 429 or 408 ends \<open>post\<close> after one
  attempt and no sleep, with \<open>LLMAuthError\<close> or \<open>LLMRateLimit\<close>.  The code does otherwise:
  both classes derive from \<open>LLMError\<close>, which the \<open>except\<close> clause of the retry loop
  catches.  With the client of the tests (two attempts) a persistent 401 and a persistent
  429 are each requested twice, with one sleep in between, and the call ends with the
  plain \<open>LLMError\<close> of exhausted retries.
\<close>

theorem post_retries_auth_and_rate_limit:
  "post (mock_client (error_response 401 ''Unauthorized'') 2) test_url None None =
     (Inl (Exn LLMError
        ''POST https://api.example.com/test failed after 2 attempts: Auth failed: Unauthorized''),
      \<lparr>calls = [test_request, test_request], sleeps = [1]\<rparr>)
   \<and> post (mock_client (error_response 429 ''Rate limited'') 2) test_url None None =
     (Inl (Exn LLMError
        ''POST https://api.example.com/test failed after 2 attempts: Rate limited or timeout: 429 Rate limited''),
      \<lparr>calls = [test_request, test_request], sleeps = [1]\<rparr>)"
  by (simp add: post_def attempt_once_def mock_client_def error_response_def always_def
        test_url_def test_request_def upto_rec1 str_int_def str_nat.simps digit_char_def)

text \<open>
  C2.  For \<open>max_retries = N \<ge> 1\<close>, when every attempt is answered with a status from 500
  to 599, \<open>post\<close> sends \<open>N\<close> requests, sleeps \<open>N - 1\<close> times with the delays
  \<open>min (2 ^ k) 8\<close> for \<open>k = 0, ..., N - 2\<close> (that is 1, 2, 4, 8, 8, ...), and fails with an
  \<open>LLMError\<close> whose message names the URL, the \<open>N\<close> attempts and the last server error.
\<close>

theorem post_persistent_5xx:
  assumes N: "1 \<le> N" and mr: "client_max_retries c = N"
    and all5: "\<forall>k. \<exists>r. session c k = Responds r \<and> 500 \<le> status_code r \<and> status_code r < 600"
  shows "\<exists>r. session c (nat N - 1) = Responds r \<and>
           post c url headers js =
             (Inl (Exn LLMError (''POST '' @ url @ '' failed after '' @ str_int N @ '' attempts: ''
                     @ ''Server error '' @ str_int (status_code r) @ '': ''
                     @ take 200 (resp_text r))),
              \<lparr>calls = replicate (nat N)
                  \<lparr>rq_url = url, rq_headers = headers, rq_json = js,
                   rq_timeout = client_timeout_s c\<rparr>,
               sleeps = map (\<lambda>k. min (2 ^ k) 8) [0 ..< nat N - 1]\<rparr>)"
proof -
  obtain r where r: "session c (nat N - 1) = Responds r" "500 \<le> status_code r"
      "status_code r < 600"
    using all5 by blast
  have fail: "\<And>k. \<exists>e. attempt_once (session c k) = Inl e \<and> caught e"
  proof -
    fix k
    obtain q where "session c k = Responds q" "500 \<le> status_code q" "status_code q < 600"
      using all5 by blast
    then show "\<exists>e. attempt_once (session c k) = Inl e \<and> caught e"
      by (simp add: attempt_once_5xx caught_def)
  qed
  have n: "nat (client_max_retries c - 1) = nat N - 1" using mr by simp
  have S: "\<And>x::request. x # replicate (nat N - Suc 0) x = replicate (nat N) x"
    using N by (cases "nat N") auto
  have loop: "post_loop c \<lparr>rq_url = url, rq_headers = headers, rq_json = js,
                            rq_timeout = client_timeout_s c\<rparr>
          [1 .. client_max_retries c] 1 None \<lparr>calls = [], sleeps = []\<rparr> =
        (Exhausted (Some (projl (attempt_once (session c (nat N - 1))))),
         \<lparr>calls = replicate (nat N) \<lparr>rq_url = url, rq_headers = headers, rq_json = js,
                                      rq_timeout = client_timeout_s c\<rparr>,
          sleeps = backoff 1 (nat N - 1)\<rparr>)"
    using post_loop_all_fail [OF fail, of "nat N - 1" 1 _ 1 None "\<lparr>calls = [], sleeps = []\<rparr>"]
      N mr n S
    by simp
  show ?thesis
    using r loop by (simp add: post_def attempt_once_5xx backoff_from_one mr)
qed

theorem post_persistent_5xx_witness:
  "(1::int) \<le> 6
   \<and> client_max_retries (mock_client (error_response 500 ''Server error'') 6) = 6
   \<and> (\<forall>k. \<exists>r. session (mock_client (error_response 500 ''Server error'') 6) k = Responds r
              \<and> 500 \<le> status_code r \<and> status_code r < 600)
   \<and> post (mock_client (error_response 500 ''Server error'') 6) test_url None None =
       (Inl (Exn LLMError
          ''POST https://api.example.com/test failed after 6 attempts: Server error 500: Server error''),
        \<lparr>calls = replicate 6 test_request, sleeps = [1, 2, 4, 8, 8]\<rparr>)"
  using post_persistent_5xx [of 6 "mock_client (error_response 500 ''Server error'') 6"
                               test_url None None]
  by (simp add: mock_client_def error_response_def always_def test_url_def test_request_def
        upt_rec)

text \<open>
  C9.  With \<open>max_retries \<ge> 1\<close> (the range of the field in the data model), a first
  response with a status from 200 to 299 whose body parses makes \<open>post\<close> return the parsed
  body as it is, after one request and no sleep.
\<close>

theorem post_success:
  assumes "1 \<le> client_max_retries c" and "session c 0 = Responds r"
    and "200 \<le> status_code r" and "status_code r < 300" and "json_body r = Inr v"
  shows "post c url headers js =
           (Inr v, \<lparr>calls = [\<lparr>rq_url = url, rq_headers = headers, rq_json = js,
                               rq_timeout = client_timeout_s c\<rparr>],
                    sleeps = []\<rparr>)"
proof -
  have "attempt_once (session c 0) = Inr v"
    using assms by (simp add: attempt_once_def raise_for_status_def)
  then show ?thesis using assms(1) by (rule post_first_attempt [rotated])
qed

theorem post_success_witness:
  "1 \<le> client_max_retries (mock_client (ok_response (JObj [(''result'', JStr ''success'')])) 2)
   \<and> session (mock_client (ok_response (JObj [(''result'', JStr ''success'')])) 2) 0
       = Responds (ok_response (JObj [(''result'', JStr ''success'')]))
   \<and> 200 \<le> status_code (ok_response (JObj [(''result'', JStr ''success'')]))
   \<and> status_code (ok_response (JObj [(''result'', JStr ''success'')])) < 300
   \<and> json_body (ok_response (JObj [(''result'', JStr ''success'')]))
       = Inr (JObj [(''result'', JStr ''success'')])
   \<and> post (mock_client (ok_response (JObj [(''result'', JStr ''success'')])) 2) test_url None None
       = (Inr (JObj [(''result'', JStr ''success'')]),
          \<lparr>calls = [test_request], sleeps = []\<rparr>)"
  using post_success [of "mock_client (ok_response (JObj [(''result'', JStr ''success'')])) 2"
                        "ok_response (JObj [(''result'', JStr ''success'')])"
                        "JObj [(''result'', JStr ''success'')]" test_url None None]
  by (simp add: mock_client_def ok_response_def always_def test_request_def)

section \<open>Anthropic: the request\<close>

lemma split_loop_Some: "split_loop msgs (Some s) core = (Some s, core @ msgs)"
  by (induction msgs arbitrary: core) auto

lemma split_loop_None:
  "split_loop msgs None core =
     (map_option content (find (\<lambda>m. role m = ''system'') msgs),
      core @ takeWhile (\<lambda>m. role m \<noteq> ''system'') msgs
           @ tl (dropWhile (\<lambda>m. role m \<noteq> ''system'') msgs))"
  by (induction msgs arbitrary: core) (auto simp: split_loop_Some)

lemma map_of_dict_set_same: "map_of (dict_set d k v) k = Some v"
  by (induction d) auto

lemma map_of_dict_set_other: "k' \<noteq> k \<Longrightarrow> map_of (dict_set d k v) k' = map_of d k'"
  by (induction d) auto

lemma post_loop_calls:
  "list_all P (calls tr) \<Longrightarrow> P rq \<Longrightarrow>
   list_all P (calls (snd (post_loop c rq attempts d lerr tr)))"
  by (induction attempts arbitrary: d lerr tr) (auto simp: Let_def split: sum.splits)

lemma post_calls:
  "list_all (\<lambda>rq. rq_url rq = url \<and> rq_headers rq = headers \<and> rq_json rq = js)
     (calls (snd (post c url headers js)))"
proof -
  let ?P = "\<lambda>rq. rq_url rq = url \<and> rq_headers rq = headers \<and> rq_json rq = js"
  let ?rq = "\<lparr>rq_url = url, rq_headers = headers, rq_json = js, rq_timeout = client_timeout_s c\<rparr>"
  let ?r = "post_loop c ?rq [1 .. client_max_retries c] 1 None \<lparr>calls = [], sleeps = []\<rparr>"
  have "list_all ?P (calls (snd ?r))"
    by (rule post_loop_calls) simp_all
  moreover have "snd (post c url headers js) = snd ?r"
    by (simp add: post_def split: prod.splits loop_exit.splits option.splits)
  ultimately show ?thesis by simp
qed

lemma AnthropicAdapter_chat_calls:
  "list_all (\<lambda>rq. rq_json rq = Some (JObj (Anthropic_payload config messages)))
     (calls (snd (AnthropicAdapter_chat config messages client)))"
proof (cases "require (anthropic_api_key config) ''ANTHROPIC_API_KEY''")
  case (Inl e)
  then show ?thesis by (simp add: AnthropicAdapter_chat_def no_trace_def)
next
  case (Inr api_key)
  let ?p = "post client (anthropic_url config) (Some (Anthropic_headers config api_key))
              (Some (JObj (Anthropic_payload config messages)))"
  have "list_all (\<lambda>rq. rq_json rq = Some (JObj (Anthropic_payload config messages)))
          (calls (snd ?p))"
    using post_calls [of "anthropic_url config" "Some (Anthropic_headers config api_key)"
                         "Some (JObj (Anthropic_payload config messages))" client]
    by (simp add: list_all_iff)
  moreover have "snd (AnthropicAdapter_chat config messages client) = snd ?p"
    using Inr by (simp add: AnthropicAdapter_chat_def split: prod.splits sum.splits)
  ultimately show ?thesis by simp
qed

text \<open>
  C3 (amended).  The \<open>messages\<close> field of the payload that \<open>AnthropicAdapter.chat\<close> builds
  holds the input messages without the first one of role \<open>system\<close>, in their order (later
  \<open>system\<close> messages included); each of them has become an object whose \<open>role\<close> is the
  message's role when that is \<open>user\<close> or \<open>assistant\<close> and \<open>user\<close> otherwise, and whose
  \<open>content\<close> is the one-element list \<open>[{type: "text", text: <original content>}]\<close>.  The
  payload has a \<open>system\<close> field, equal to the content of the first \<open>system\<close> message,
  exactly when such a message is present and its content is not empty.  Every request
  that \<open>chat\<close> sends carries this payload.
\<close>

theorem Anthropic_payload_messages_and_system:
  "map_of (Anthropic_payload config messages) ''messages'' =
     Some (JArr (map (\<lambda>m. JObj [(''role'', JStr (if role m = ''user'' \<or> role m = ''assistant''
                                               then role m else ''user'')),
                             (''content'', JArr [JObj [(''type'', JStr ''text''),
                                                       (''text'', JStr (content m))]])])
                   (takeWhile (\<lambda>m. role m \<noteq> ''system'') messages
                    @ tl (dropWhile (\<lambda>m. role m \<noteq> ''system'') messages))))
   \<and> map_of (Anthropic_payload config messages) ''system'' =
       (case find (\<lambda>m. role m = ''system'') messages of
          None \<Rightarrow> None
        | Some m \<Rightarrow> if content m = [] then None else Some (JStr (content m)))
   \<and> list_all (\<lambda>rq. rq_json rq = Some (JObj (Anthropic_payload config messages)))
        (calls (snd (AnthropicAdapter_chat config messages client)))"
proof (intro conjI)
  have conv: "anthropic_message = (\<lambda>m. JObj [(''role'', JStr (if role m = ''user'' \<or> role m = ''assistant''
                                               then role m else ''user'')),
                             (''content'', JArr [JObj [(''type'', JStr ''text''),
                                                       (''text'', JStr (content m))]])])"
    by (rule ext) (simp add: anthropic_message_def)
  show "map_of (Anthropic_payload config messages) ''messages'' =
     Some (JArr (map (\<lambda>m. JObj [(''role'', JStr (if role m = ''user'' \<or> role m = ''assistant''
                                               then role m else ''user'')),
                             (''content'', JArr [JObj [(''type'', JStr ''text''),
                                                       (''text'', JStr (content m))]])])
                   (takeWhile (\<lambda>m. role m \<noteq> ''system'') messages
                    @ tl (dropWhile (\<lambda>m. role m \<noteq> ''system'') messages))))"
    unfolding conv [symmetric]
    by (simp add: Anthropic_payload_def split_system_message_def split_loop_None
          map_of_dict_set_other Let_def split: option.splits)
  show "map_of (Anthropic_payload config messages) ''system'' =
       (case find (\<lambda>m. role m = ''system'') messages of
          None \<Rightarrow> None
        | Some m \<Rightarrow> if content m = [] then None else Some (JStr (content m)))"
    by (simp add: Anthropic_payload_def split_system_message_def split_loop_None
          map_of_dict_set_same Let_def split: option.splits)
  show "list_all (\<lambda>rq. rq_json rq = Some (JObj (Anthropic_payload config messages)))
        (calls (snd (AnthropicAdapter_chat config messages client)))"
    by (rule AnthropicAdapter_chat_calls)
qed

theorem Anthropic_payload_messages_and_system_witness:
  "map_of (Anthropic_payload anthropic_config conversation) ''messages'' =
     Some (JArr
       [JObj [(''role'', JStr ''user''),
              (''content'', JArr [JObj [(''type'', JStr ''text''), (''text'', JStr ''Question'')]])],
        JObj [(''role'', JStr ''assistant''),
              (''content'', JArr [JObj [(''type'', JStr ''text''), (''text'', JStr ''Answer'')]])],
        JObj [(''role'', JStr ''user''),
              (''content'', JArr [JObj [(''type'', JStr ''text''), (''text'', JStr ''Result'')]])],
        JObj [(''role'', JStr ''user''),
              (''content'', JArr [JObj [(''type'', JStr ''text''),
                                        (''text'', JStr ''Second system'')]])]])
   \<and> map_of (Anthropic_payload anthropic_config conversation) ''system'' =
       Some (JStr ''You are a helpful assistant.'')"
  using Anthropic_payload_messages_and_system
          [of anthropic_config conversation "mock_client (ok_response (JObj [])) 2"]
  by (simp add: conversation_def)

text \<open>
  C3 as stated fails: a \<open>system\<close> message with empty content is present in the input
  (and is left out of \<open>messages\<close>), yet the payload has no \<open>system\<close> field, because the
  code tests \<open>if system_prompt:\<close>.
\<close>

theorem Anthropic_empty_system_counterexample:
  "role (hd [\<lparr>role = ''system'', content = []\<rparr>, \<lparr>role = ''user'', content = ''test''\<rparr>]) = ''system''
   \<and> map_of (Anthropic_payload anthropic_config
               [\<lparr>role = ''system'', content = []\<rparr>, \<lparr>role = ''user'', content = ''test''\<rparr>])
        ''system'' = None"
  by (simp add: Anthropic_payload_def split_system_message_def)

section \<open>Parsing the responses\<close>

lemma post_mock_ok:
  "1 \<le> n \<Longrightarrow>
   post (mock_client (ok_response body) n) url headers (Some (JObj payload)) =
     (Inr body, \<lparr>calls = [mock_request url headers payload], sleeps = []\<rparr>)"
  using post_first_attempt [of "mock_client (ok_response body) n" body url headers
                               "Some (JObj payload)"]
  by (simp add: mock_client_def ok_response_def always_def attempt_once_def
        raise_for_status_def mock_request_def)

lemma is_string_simps [simp]:
  "is_string (JStr s)" "\<not> is_string JNull" "\<not> is_string (JBool b)" "\<not> is_string (JInt i)"
  "\<not> is_string (JFloat r)" "\<not> is_string (JArr xs)" "\<not> is_string (JObj d)"
  by (simp_all add: is_string_def)

lemma is_list_simps [simp]:
  "is_list (JArr xs)" "\<not> is_list JNull" "\<not> is_list (JBool b)" "\<not> is_list (JInt i)"
  "\<not> is_list (JFloat r)" "\<not> is_list (JStr s)" "\<not> is_list (JObj d)"
  by (simp_all add: is_list_def)

lemma is_object_simps [simp]:
  "is_object (JObj d)" "\<not> is_object JNull" "\<not> is_object (JBool b)" "\<not> is_object (JInt i)"
  "\<not> is_object (JFloat r)" "\<not> is_object (JStr s)" "\<not> is_object (JArr xs)"
  by (simp_all add: is_object_def)

lemma join_from_strings: "join_from i (map JStr ts) = Inr (concat ts)"
  by (induction ts arbitrary: i) (auto simp: and_then_def)

lemma join_from_not_string:
  "\<not> list_all is_string xs \<Longrightarrow> \<exists>m. join_from i xs = Inl (Exn TypeError m)"
proof (induction xs arbitrary: i)
  case Nil
  then show ?case by simp
next
  case (Cons x xs)
  show ?case
  proof (cases x)
    case (JStr s)
    with Cons.prems have "\<not> list_all is_string xs" by simp
    then obtain m where "join_from (Suc i) xs = Inl (Exn TypeError m)"
      using Cons.IH by blast
    then show ?thesis using JStr by (simp add: and_then_def)
  qed simp_all
qed

lemma text_items_spec:
  "map block_text (filter is_text_block blocks) = map Some texts \<Longrightarrow>
   text_items blocks = map JStr texts"
proof (induction blocks arbitrary: texts)
  case Nil
  then show ?case by simp
next
  case (Cons b blocks)
  show ?case
  proof (cases "is_text_block b")
    case False
    then have "text_items (b # blocks) = text_items blocks"
      by (cases b) (auto simp: is_text_block_def dict_get_def split: option.splits)
    then show ?thesis using Cons False by simp
  next
    case True
    then obtain d where d: "b = JObj d" "map_of d ''type'' = Some (JStr ''text'')"
      by (cases b) (auto simp: is_text_block_def)
    from Cons.prems True obtain t ts where ts: "texts = t # ts" "block_text b = Some t"
        "map block_text (filter is_text_block blocks) = map Some ts"
      by (cases texts) auto
    have "dict_get d ''text'' (JStr []) = JStr t"
      using ts(2) d(1) by (auto simp: block_text_def dict_get_def split: option.splits json.splits)
    then show ?thesis using d ts Cons.IH [OF ts(3)] by (simp add: dict_get_def)
  qed
qed

lemma text_items_bad:
  "None \<in> set (map block_text (filter is_text_block blocks)) \<Longrightarrow>
   \<not> list_all is_string (text_items blocks)"
proof (induction blocks)
  case Nil
  then show ?case by simp
next
  case (Cons b blocks)
  show ?case
  proof (cases b)
    case (JObj d)
    then show ?thesis using Cons
      by (auto simp: is_text_block_def block_text_def dict_get_def
               split: option.splits json.splits if_splits)
  qed (use Cons in \<open>auto simp: is_text_block_def\<close>)
qed

lemma Anthropic_parse_list:
  assumes "map_of raw ''content'' = Some (JArr blocks)"
    and "map block_text (filter is_text_block blocks) = map Some texts"
  shows "Anthropic_parse config raw =
           Inr \<lparr>result_text = JStr (strip (concat texts)), result_raw = raw,
                result_provider = ''anthropic'', result_model = model config,
                result_usage = dict_get raw ''usage'' JNull\<rparr>"
  using assms
  by (simp add: Anthropic_parse_def and_then_def text_items_spec join_from_strings)

lemma Anthropic_parse_bad_text:
  assumes "map_of raw ''content'' = Some (JArr blocks)"
    and "None \<in> set (map block_text (filter is_text_block blocks))"
  shows "\<exists>m. Anthropic_parse config raw = Inl (Exn LLMError m)"
proof -
  obtain m where "join_from 0 (text_items blocks) = Inl (Exn TypeError m)"
    using join_from_not_string [OF text_items_bad [OF assms(2)]] by blast
  then show ?thesis using assms(1) by (simp add: Anthropic_parse_def and_then_def)
qed

lemma Anthropic_parse_no_list:
  assumes "map_of raw ''content'' = None \<or> (\<exists>v. map_of raw ''content'' = Some v \<and> \<not> is_list v)"
  shows "\<exists>m. Anthropic_parse config raw = Inl (Exn LLMError m)"
proof (cases "map_of raw ''content''")
  case None
  then show ?thesis by (simp add: Anthropic_parse_def and_then_def)
next
  case (Some v)
  with assms have "\<not> is_list v" by simp
  then show ?thesis using Some
    by (cases v) (simp_all add: Anthropic_parse_def and_then_def)
qed

lemma AnthropicAdapter_chat_parse:
  assumes "require (anthropic_api_key config) ''ANTHROPIC_API_KEY'' = Inr api_key"
    and "post client (anthropic_url config) (Some (Anthropic_headers config api_key))
           (Some (JObj (Anthropic_payload config messages))) = (Inr (JObj raw), tr)"
  shows "AnthropicAdapter_chat config messages client = (Anthropic_parse config raw, tr)"
  using assms by (simp add: AnthropicAdapter_chat_def ensure_dict_def)

text \<open>
  C4 (amended).  Let the transport hand \<open>AnthropicAdapter.chat\<close> the object \<open>raw\<close>.
  If \<open>content\<close> is a list in which the \<open>text\<close> fields of the blocks of type \<open>"text"\<close> are
  the strings \<open>texts\<close> (an absent field counting as the empty string), the result text is
  their concatenation in list order, without separator, stripped of surrounding white
  space.  If some block of type \<open>"text"\<close> has a \<open>text\<close> that is not a string, or if
  \<open>content\<close> is absent or not a list, \<open>chat\<close> fails with an \<open>LLMError\<close>.
\<close>

theorem AnthropicAdapter_chat_text:
  assumes "require (anthropic_api_key config) ''ANTHROPIC_API_KEY'' = Inr api_key"
    and "post client (anthropic_url config) (Some (Anthropic_headers config api_key))
           (Some (JObj (Anthropic_payload config messages))) = (Inr (JObj raw), tr)"
  shows "(\<forall>blocks texts.
            map_of raw ''content'' = Some (JArr blocks) \<longrightarrow>
            map block_text (filter is_text_block blocks) = map Some texts \<longrightarrow>
            AnthropicAdapter_chat config messages client =
              (Inr \<lparr>result_text = JStr (strip (concat texts)), result_raw = raw,
                    result_provider = ''anthropic'', result_model = model config,
                    result_usage = dict_get raw ''usage'' JNull\<rparr>, tr))
       \<and> (\<forall>blocks.
            map_of raw ''content'' = Some (JArr blocks) \<longrightarrow>
            None \<in> set (map block_text (filter is_text_block blocks)) \<longrightarrow>
            (\<exists>m. AnthropicAdapter_chat config messages client = (Inl (Exn LLMError m), tr)))
       \<and> (map_of raw ''content'' = None
            \<or> (\<exists>v. map_of raw ''content'' = Some v \<and> \<not> is_list v) \<longrightarrow>
          (\<exists>m. AnthropicAdapter_chat config messages client = (Inl (Exn LLMError m), tr)))"
  using AnthropicAdapter_chat_parse [OF assms] Anthropic_parse_list [of raw _ _ config]
    Anthropic_parse_bad_text [of raw _ config] Anthropic_parse_no_list [of raw config]
  by (metis (no_types, lifting))

lemma anthropic_key:
  "require (anthropic_api_key anthropic_config) ''ANTHROPIC_API_KEY'' = Inr ''test-anthropic-key''"
  by (simp add: require_def anthropic_config_def base_config_def)

lemma anthropic_post:
  "post (mock_client (ok_response body) 2) (anthropic_url anthropic_config)
     (Some (Anthropic_headers anthropic_config ''test-anthropic-key''))
     (Some (JObj (Anthropic_payload anthropic_config user_test))) =
   (Inr body, \<lparr>calls = [anthropic_request], sleeps = []\<rparr>)"
  unfolding anthropic_request_def by (rule post_mock_ok) simp

theorem AnthropicAdapter_chat_text_witness:
  "require (anthropic_api_key anthropic_config) ''ANTHROPIC_API_KEY'' = Inr ''test-anthropic-key''
   \<and> post (mock_client (ok_response (JObj anthropic_two_blocks)) 2) (anthropic_url anthropic_config)
         (Some (Anthropic_headers anthropic_config ''test-anthropic-key''))
         (Some (JObj (Anthropic_payload anthropic_config user_test))) =
       (Inr (JObj anthropic_two_blocks), \<lparr>calls = [anthropic_request], sleeps = []\<rparr>)
   \<and> AnthropicAdapter_chat anthropic_config user_test
         (mock_client (ok_response (JObj anthropic_two_blocks)) 2) =
       (Inr \<lparr>result_text = JStr ''ab'', result_raw = anthropic_two_blocks,
             result_provider = ''anthropic'', result_model = ''claude-3-sonnet-20240229'',
             result_usage = JNull\<rparr>,
        \<lparr>calls = [anthropic_request], sleeps = []\<rparr>)
   \<and> (\<exists>m. AnthropicAdapter_chat anthropic_config user_test
              (mock_client (ok_response (JObj anthropic_not_a_list)) 2) =
            (Inl (Exn LLMError m), \<lparr>calls = [anthropic_request], sleeps = []\<rparr>))"
proof -
  note t1 = AnthropicAdapter_chat_text [OF anthropic_key anthropic_post [of "JObj anthropic_two_blocks"]]
  note t2 = AnthropicAdapter_chat_text [OF anthropic_key anthropic_post [of "JObj anthropic_not_a_list"]]
  have a: "AnthropicAdapter_chat anthropic_config user_test
         (mock_client (ok_response (JObj anthropic_two_blocks)) 2) =
       (Inr \<lparr>result_text = JStr ''ab'', result_raw = anthropic_two_blocks,
             result_provider = ''anthropic'', result_model = ''claude-3-sonnet-20240229'',
             result_usage = JNull\<rparr>,
        \<lparr>calls = [anthropic_request], sleeps = []\<rparr>)"
    using t1 [THEN conjunct1, rule_format,
              of "[JObj [(''type'', JStr ''text''), (''text'', JStr ''a'')],
                   JObj [(''type'', JStr ''text''), (''text'', JStr ''b'')]]" "[''a'', ''b'']"]
    by (simp add: anthropic_two_blocks_def is_text_block_def block_text_def strip_def is_space_def
          dict_get_def anthropic_config_def base_config_def)
  have b: "\<exists>m. AnthropicAdapter_chat anthropic_config user_test
              (mock_client (ok_response (JObj anthropic_not_a_list)) 2) =
            (Inl (Exn LLMError m), \<lparr>calls = [anthropic_request], sleeps = []\<rparr>)"
    using t2 [THEN conjunct2, THEN conjunct2]
    by (simp add: anthropic_not_a_list_def)
  show ?thesis using anthropic_key anthropic_post a b by simp
qed

text \<open>
  C4 as stated fails: the \<open>content\<close> of this response is a list, yet \<open>chat\<close> returns no
  result, because the \<open>text\<close> of its text block is \<open>null\<close> and \<open>"".join\<close> raises
  \<open>TypeError\<close>, which the code turns into \<open>LLMError\<close>.
\<close>

theorem AnthropicAdapter_null_text_counterexample:
  "map_of anthropic_null_text ''content'' =
     Some (JArr [JObj [(''type'', JStr ''text''), (''text'', JNull)]])
   \<and> AnthropicAdapter_chat anthropic_config user_test
         (mock_client (ok_response (JObj anthropic_null_text)) 2) =
       (Inl (Exn LLMError
          ''Anthropic: unexpected response format: sequence item 0: expected str instance, NoneType found''),
        \<lparr>calls = [anthropic_request], sleeps = []\<rparr>)"
  by (simp add: AnthropicAdapter_chat_def anthropic_key anthropic_post ensure_dict_def
        Anthropic_parse_def and_then_def anthropic_null_text_def dict_get_def
        str_nat.simps digit_char_def)

lemma OllamaAdapter_chat_parse:
  assumes "post client (ollama_url config) None (Some (JObj (Ollama_payload config messages)))
             = (Inr (JObj raw), tr)"
  shows "OllamaAdapter_chat config messages client = (Ollama_parse config raw, tr)"
  using assms by (simp add: OllamaAdapter_chat_def ensure_dict_def)

text \<open>
  C5.  Let the transport hand \<open>OllamaAdapter.chat\<close> the object \<open>raw\<close>.  If \<open>raw\<close> has no
  \<open>message\<close> key, or \<open>message\<close> is an object without a \<open>content\<close> key, the result text is
  the empty string and no error is raised; if \<open>message\<close> is present and not an object,
  \<open>chat\<close> fails with an \<open>LLMError\<close>.
\<close>

theorem OllamaAdapter_chat_message:
  assumes "post client (ollama_url config) None (Some (JObj (Ollama_payload config messages)))
             = (Inr (JObj raw), tr)"
  shows "(map_of raw ''message'' = None \<longrightarrow>
            OllamaAdapter_chat config messages client =
              (Inr \<lparr>result_text = JStr [], result_raw = raw, result_provider = ''ollama'',
                    result_model = model config,
                    result_usage = JObj [(''eval_count'', dict_get raw ''eval_count'' JNull)]\<rparr>, tr))
       \<and> (\<forall>m. map_of raw ''message'' = Some (JObj m) \<longrightarrow> map_of m ''content'' = None \<longrightarrow>
            OllamaAdapter_chat config messages client =
              (Inr \<lparr>result_text = JStr [], result_raw = raw, result_provider = ''ollama'',
                    result_model = model config,
                    result_usage = JObj [(''eval_count'', dict_get raw ''eval_count'' JNull)]\<rparr>, tr))
       \<and> (\<forall>v. map_of raw ''message'' = Some v \<longrightarrow> \<not> is_object v \<longrightarrow>
            OllamaAdapter_chat config messages client =
              (Inl (Exn LLMError ''Ollama: unexpected response format: message is not an object''),
               tr))"
proof (intro conjI allI impI)
  assume "map_of raw ''message'' = None"
  then show "OllamaAdapter_chat config messages client =
              (Inr \<lparr>result_text = JStr [], result_raw = raw, result_provider = ''ollama'',
                    result_model = model config,
                    result_usage = JObj [(''eval_count'', dict_get raw ''eval_count'' JNull)]\<rparr>, tr)"
    by (simp add: OllamaAdapter_chat_parse [OF assms] Ollama_parse_def dict_get_def)
next
  fix m
  assume "map_of raw ''message'' = Some (JObj m)" "map_of m ''content'' = None"
  then show "OllamaAdapter_chat config messages client =
              (Inr \<lparr>result_text = JStr [], result_raw = raw, result_provider = ''ollama'',
                    result_model = model config,
                    result_usage = JObj [(''eval_count'', dict_get raw ''eval_count'' JNull)]\<rparr>, tr)"
    by (simp add: OllamaAdapter_chat_parse [OF assms] Ollama_parse_def dict_get_def)
next
  fix v
  assume "map_of raw ''message'' = Some v" "\<not> is_object v"
  then show "OllamaAdapter_chat config messages client =
              (Inl (Exn LLMError ''Ollama: unexpected response format: message is not an object''),
               tr)"
    by (cases v) (simp_all add: OllamaAdapter_chat_parse [OF assms] Ollama_parse_def dict_get_def)
qed

lemma ollama_post:
  "post (mock_client (ok_response body) 2) (ollama_url ollama_config) None
     (Some (JObj (Ollama_payload ollama_config user_test))) =
   (Inr body, \<lparr>calls = [ollama_request], sleeps = []\<rparr>)"
  unfolding ollama_request_def by (rule post_mock_ok) simp

theorem OllamaAdapter_chat_message_witness:
  "post (mock_client (ok_response (JObj [(''model'', JStr ''llama3'')])) 2)
       (ollama_url ollama_config) None (Some (JObj (Ollama_payload ollama_config user_test))) =
     (Inr (JObj [(''model'', JStr ''llama3'')]), \<lparr>calls = [ollama_request], sleeps = []\<rparr>)
   \<and> OllamaAdapter_chat ollama_config user_test
        (mock_client (ok_response (JObj [(''model'', JStr ''llama3'')])) 2) =
       (Inr \<lparr>result_text = JStr [], result_raw = [(''model'', JStr ''llama3'')],
             result_provider = ''ollama'', result_model = ''llama3'',
             result_usage = JObj [(''eval_count'', JNull)]\<rparr>,
        \<lparr>calls = [ollama_request], sleeps = []\<rparr>)
   \<and> OllamaAdapter_chat ollama_config user_test
        (mock_client (ok_response (JObj [(''message'', JObj [])])) 2) =
       (Inr \<lparr>result_text = JStr [], result_raw = [(''message'', JObj [])],
             result_provider = ''ollama'', result_model = ''llama3'',
             result_usage = JObj [(''eval_count'', JNull)]\<rparr>,
        \<lparr>calls = [ollama_request], sleeps = []\<rparr>)
   \<and> OllamaAdapter_chat ollama_config user_test
        (mock_client (ok_response (JObj [(''message'', JStr ''not an object'')])) 2) =
       (Inl (Exn LLMError ''Ollama: unexpected response format: message is not an object''),
        \<lparr>calls = [ollama_request], sleeps = []\<rparr>)"
proof -
  note t1 = OllamaAdapter_chat_message [OF ollama_post [of "JObj [(''model'', JStr ''llama3'')]"]]
  note t2 = OllamaAdapter_chat_message [OF ollama_post [of "JObj [(''message'', JObj [])]"]]
  note t3 = OllamaAdapter_chat_message
              [OF ollama_post [of "JObj [(''message'', JStr ''not an object'')]"]]
  show ?thesis
    using ollama_post [of "JObj [(''model'', JStr ''llama3'')]"]
      t1 [THEN conjunct1] t2 [THEN conjunct2, THEN conjunct1, rule_format, of "[]"]
      t3 [THEN conjunct2, THEN conjunct2, rule_format, of "JStr ''not an object''"]
    by (simp add: dict_get_def ollama_config_def base_config_def)
qed

lemma openai_key:
  "require (openai_api_key openai_config) ''OPENAI_API_KEY'' = Inr ''test-openai-key''"
  by (simp add: require_def openai_config_def base_config_def)

lemma openai_post:
  "post (mock_client (ok_response body) 2) (openai_url openai_config)
     (Some (OpenAI_headers ''test-openai-key''))
     (Some (JObj (OpenAI_payload openai_config user_test))) =
   (Inr body, \<lparr>calls = [openai_request], sleeps = []\<rparr>)"
  unfolding openai_request_def by (rule post_mock_ok) simp

lemma sample_models:
  "model openai_config = ''gpt-4''" "model anthropic_config = ''claude-3-sonnet-20240229''"
  "model ollama_config = ''llama3''"
  by (simp_all add: openai_config_def anthropic_config_def ollama_config_def base_config_def)

text \<open>
  C6.  The claim: every result an adapter returns has a string as its \<open>text\<close>, never
  \<open>None\<close>.  \<open>OpenAIAdapter.chat\<close> stores \<open>raw["choices"][0]["message"]["content"]\<close> as it
  is: for a response whose message content is \<open>null\<close> it returns a result whose \<open>text\<close> is
  \<open>None\<close>.
\<close>

theorem OpenAIAdapter_chat_null_text:
  "OpenAIAdapter_chat openai_config user_test
     (mock_client (ok_response (JObj openai_null_content)) 2) =
   (Inr \<lparr>result_text = JNull, result_raw = openai_null_content, result_provider = ''openai'',
         result_model = ''gpt-4'', result_usage = JNull\<rparr>,
    \<lparr>calls = [openai_request], sleeps = []\<rparr>)"
  by (simp add: OpenAIAdapter_chat_def openai_key openai_post ensure_dict_def OpenAI_parse_def
        and_then_def openai_null_content_def dict_get_def sample_models)

section \<open>Tag extraction\<close>

lemma tags_comprehension:
  "concat (map (\<lambda>tag. if strip tag \<noteq> [] then [strip tag] else []) xs) =
   filter (\<lambda>t. t \<noteq> []) (map strip xs)"
  by (induction xs) auto

lemma mock_llm_ollama_chat:
  assumes "provider config = ''ollama''" and "1 \<le> max_retries config"
  shows "chat (mock_llm config (JObj raw)) messages =
           (Ollama_parse config raw, \<lparr>calls = [llm_request config messages], sleeps = []\<rparr>)"
proof -
  let ?c = "llm_client (mock_llm config (JObj raw))"
  have "attempt_once (session ?c 0) = Inr (JObj raw)"
    by (simp add: mock_llm_def LLM_init_def always_def ok_response_def attempt_once_def
          raise_for_status_def)
  moreover have "1 \<le> client_max_retries ?c"
    using assms(2) by (simp add: mock_llm_def LLM_init_def)
  ultimately have "post ?c (ollama_url config) None (Some (JObj (Ollama_payload config messages)))
      = (Inr (JObj raw), \<lparr>calls = [llm_request config messages], sleeps = []\<rparr>)"
    using post_first_attempt [of ?c "JObj raw" "ollama_url config" None
                                 "Some (JObj (Ollama_payload config messages))"]
    by (simp add: llm_request_def mock_llm_def LLM_init_def)
  then have "OllamaAdapter_chat config messages ?c
      = (Ollama_parse config raw, \<lparr>calls = [llm_request config messages], sleeps = []\<rparr>)"
    by (simp add: OllamaAdapter_chat_def ensure_dict_def)
  then show ?thesis using assms(1)
    by (simp add: chat_def mock_llm_def LLM_init_def)
qed

text \<open>
  C7 (amended).  When \<open>chat\<close> returns a result whose text is the string \<open>s\<close> and
  \<open>max_tags \<ge> 0\<close>, \<open>extract_tags\<close> splits \<open>s\<close> at the newlines, strips every line, drops
  the lines that are empty after stripping, and returns the first \<open>max_tags\<close> of the
  remaining entries (all of them when there are fewer), however many the model returned.
\<close>

theorem extract_tags_first_max_tags:
  assumes "chat self (tags_messages txt max_tags) = (Inr result, tr)"
    and "result_text result = JStr s" and "0 \<le> max_tags"
  shows "extract_tags self txt max_tags =
           (Inr (take (nat max_tags) (filter (\<lambda>t. t \<noteq> []) (map strip (split_lines s)))), tr)"
  using assms by (simp add: extract_tags_def slice_to_def tags_comprehension)

lemma ollama_facts:
  "provider ollama_config = ''ollama''" "1 \<le> max_retries ollama_config"
  by (simp_all add: ollama_config_def base_config_def)

lemma strip_samples:
  "strip '' tag1 '' = ''tag1''" "strip ''tag2'' = ''tag2''" "strip ''tag3'' = ''tag3''"
  "strip ''tag4'' = ''tag4''" "strip ''tag5'' = ''tag5''" "strip ''tag6'' = ''tag6''"
  "strip ''  '' = []" "strip [] = []" "strip ''a'' = ''a''" "strip ''b'' = ''b''" "strip ''c'' = ''c''"
  by (simp_all add: strip_def is_space_def)

theorem extract_tags_first_max_tags_witness:
  "chat (mock_llm ollama_config (JObj tags_body)) (tags_messages ''Some text'' 3) =
     (Inr \<lparr>result_text = JStr '' tag1 \<newline>\<newline>tag2\<newline>  \<newline>tag3\<newline>tag4\<newline>tag5\<newline>tag6'',
           result_raw = tags_body, result_provider = ''ollama'', result_model = ''llama3'',
           result_usage = JObj [(''eval_count'', JNull)]\<rparr>,
      \<lparr>calls = [llm_request ollama_config (tags_messages ''Some text'' 3)], sleeps = []\<rparr>)
   \<and> extract_tags (mock_llm ollama_config (JObj tags_body)) ''Some text'' 3 =
     (Inr [''tag1'', ''tag2'', ''tag3''],
      \<lparr>calls = [llm_request ollama_config (tags_messages ''Some text'' 3)], sleeps = []\<rparr>)"
proof -
  have c: "chat (mock_llm ollama_config (JObj tags_body)) (tags_messages ''Some text'' 3) =
     (Inr \<lparr>result_text = JStr '' tag1 \<newline>\<newline>tag2\<newline>  \<newline>tag3\<newline>tag4\<newline>tag5\<newline>tag6'',
           result_raw = tags_body, result_provider = ''ollama'', result_model = ''llama3'',
           result_usage = JObj [(''eval_count'', JNull)]\<rparr>,
      \<lparr>calls = [llm_request ollama_config (tags_messages ''Some text'' 3)], sleeps = []\<rparr>)"
    by (simp add: mock_llm_ollama_chat [OF ollama_facts] Ollama_parse_def dict_get_def
          tags_body_def)
       (simp add: ollama_config_def base_config_def)
  show ?thesis
    using c extract_tags_first_max_tags [OF c]
    by (simp add: strip_samples)
qed

text \<open>
  C7 as stated fails for a negative \<open>max_tags\<close>: the slice \<open>tags[:max_tags]\<close> then drops
  entries from the end, so \<open>max_tags = -1\<close> on three tags returns two of them.
\<close>

theorem extract_tags_negative_counterexample:
  "fst (extract_tags (mock_llm ollama_config (JObj three_lines)) ''Some text'' (- 1))
     = Inr [''a'', ''b'']"
  by (simp add: extract_tags_def mock_llm_ollama_chat [OF ollama_facts] Ollama_parse_def
        dict_get_def three_lines_def slice_to_def strip_samples)

section \<open>Configuration from the environment\<close>

lemma getenv_supplied:
  "getenv env ''LLM_PROVIDER'' DEFAULT_PROVIDER = supplied env ''LLM_PROVIDER''"
  "getenv env ''LLM_MODEL'' DEFAULT_MODEL = supplied env ''LLM_MODEL''"
  "getenv env ''LLM_TEMPERATURE'' str_DEFAULT_TEMPERATURE = supplied env ''LLM_TEMPERATURE''"
  "getenv env ''LLM_TIMEOUT_S'' (str_int DEFAULT_TIMEOUT_S) = supplied env ''LLM_TIMEOUT_S''"
  "getenv env ''LLM_MAX_RETRIES'' (str_int DEFAULT_MAX_RETRIES) = supplied env ''LLM_MAX_RETRIES''"
  "getenv env ''OPENAI_BASE_URL'' OPENAI_BASE_URL = supplied env ''OPENAI_BASE_URL''"
  "getenv env ''ANTHROPIC_API_URL'' ANTHROPIC_BASE_URL = supplied env ''ANTHROPIC_API_URL''"
  "getenv env ''ANTHROPIC_VERSION'' ANTHROPIC_VERSION = supplied env ''ANTHROPIC_VERSION''"
  "getenv env ''OLLAMA_BASE_URL'' OLLAMA_BASE_URL = supplied env ''OLLAMA_BASE_URL''"
  by (simp_all add: getenv_def supplied_def documented_default_def DEFAULT_PROVIDER_def
        DEFAULT_MODEL_def str_DEFAULT_TEMPERATURE_def DEFAULT_TIMEOUT_S_def
        DEFAULT_MAX_RETRIES_def OPENAI_BASE_URL_def ANTHROPIC_BASE_URL_def ANTHROPIC_VERSION_def
        OLLAMA_BASE_URL_def split: option.splits)

lemma lower_samples:
  "lower ''ollama'' = ''ollama''" "lower ''openai'' = ''openai''" "lower ''anthropic'' = ''anthropic''"
  "lower ''OpenAI'' = ''openai''" "lower ''OLLAMA'' = ''ollama''"
  by (simp_all add: lower_def lower_char_def upper_chars_def lower_chars_def)

lemma py_int_samples:
  "py_int ''60'' = Inr 60" "py_int ''3'' = Inr 3" "py_int ''100'' = Inr 100"
  "py_int '' 45 '' = Inr 45" "py_int ''5'' = Inr 5"
  "py_int ''abc'' = Inl (''invalid literal for int() with base 10: '' @ quote ''abc'')"
  by (simp_all add: py_int_def is_int_space_def digit_or_underscore_def is_digit_def
        digits_value_def digit_val_def invalid_literal_def py_repr_def escape_char_def
        printable_def quote_def Let_def)

text \<open>
  C8 (amended).  Let the value of \<open>LLM_PROVIDER\<close>, lower-cased, be one of the three
  supported names, and let \<open>LLM_TEMPERATURE\<close>, \<open>LLM_TIMEOUT_S\<close> and \<open>LLM_MAX_RETRIES\<close> (the
  supplied value, or the documented default when absent) and a non-empty
  \<open>LLM_MAX_TOKENS\<close> convert with \<open>float()\<close> and \<open>int()\<close>.  Then \<open>from_env\<close> returns a
  configuration in which the provider is the supplied value lower-cased, every other
  string field is the supplied value, or the documented default when the variable is
  absent (the API keys absent when not supplied), every numeric field is the converted
  value, and \<open>max_tokens\<close> is absent when \<open>LLM_MAX_TOKENS\<close> is absent or empty.
\<close>

theorem from_env_round_trip:
  assumes prov: "lower (supplied env ''LLM_PROVIDER'') \<in> set [''openai'', ''anthropic'', ''ollama'']"
    and temp: "py_float (supplied env ''LLM_TEMPERATURE'') = Some t"
    and tok: "case env ''LLM_MAX_TOKENS'' of
                None \<Rightarrow> mt = None
              | Some s \<Rightarrow> if s = [] then mt = None else map_sum id Some (py_int s) = Inr mt"
    and tmo: "py_int (supplied env ''LLM_TIMEOUT_S'') = Inr tmo"
    and ret: "py_int (supplied env ''LLM_MAX_RETRIES'') = Inr ret"
  shows "from_env py_float env =
           Inr \<lparr>provider = lower (supplied env ''LLM_PROVIDER''),
                model = supplied env ''LLM_MODEL'',
                temperature = t, max_tokens = mt, timeout_s = tmo, max_retries = ret,
                openai_api_key = env ''OPENAI_API_KEY'',
                openai_base_url = supplied env ''OPENAI_BASE_URL'',
                anthropic_api_key = env ''ANTHROPIC_API_KEY'',
                anthropic_api_url = supplied env ''ANTHROPIC_API_URL'',
                anthropic_version = supplied env ''ANTHROPIC_VERSION'',
                ollama_base_url = supplied env ''OLLAMA_BASE_URL''\<rparr>"
proof -
  have tokens: "(case env ''LLM_MAX_TOKENS'' of
                   None \<Rightarrow> Inr None
                 | Some s \<Rightarrow> if s = [] then Inr None else map_sum id Some (py_int s)) = Inr mt"
    using tok by (auto split: option.splits if_splits)
  show ?thesis
    unfolding from_env_def getenv_supplied Let_def
    using prov temp tmo ret by (simp add: tokens)
qed

theorem from_env_round_trip_witness:
  "from_env float_of_default Map.empty =
     Inr \<lparr>provider = ''ollama'', model = ''llama3'', temperature = DEFAULT_TEMPERATURE,
          max_tokens = None, timeout_s = 60, max_retries = 3,
          openai_api_key = None, openai_base_url = ''https://api.openai.com'',
          anthropic_api_key = None, anthropic_api_url = ''https://api.anthropic.com'',
          anthropic_version = ''2023-06-01'', ollama_base_url = ''http://localhost:11434''\<rparr>
   \<and> from_env float_of_default (map_of mixed_case_env) =
     Inr \<lparr>provider = ''openai'', model = ''gpt-4'', temperature = DEFAULT_TEMPERATURE,
          max_tokens = Some 100, timeout_s = 45, max_retries = 5,
          openai_api_key = Some ''test-openai-key'', openai_base_url = ''https://api.openai.com'',
          anthropic_api_key = None, anthropic_api_url = ''https://api.anthropic.com'',
          anthropic_version = ''2023-06-01'', ollama_base_url = ''http://localhost:11434''\<rparr>"
proof -
  have a: "from_env float_of_default Map.empty =
     Inr \<lparr>provider = ''ollama'', model = ''llama3'', temperature = DEFAULT_TEMPERATURE,
          max_tokens = None, timeout_s = 60, max_retries = 3,
          openai_api_key = None, openai_base_url = ''https://api.openai.com'',
          anthropic_api_key = None, anthropic_api_url = ''https://api.anthropic.com'',
          anthropic_version = ''2023-06-01'', ollama_base_url = ''http://localhost:11434''\<rparr>"
    using from_env_round_trip [of Map.empty float_of_default DEFAULT_TEMPERATURE None 60 3]
    by (simp add: supplied_def documented_default_def float_of_default_def py_int_samples
          lower_samples)
  have b: "from_env float_of_default (map_of mixed_case_env) =
     Inr \<lparr>provider = ''openai'', model = ''gpt-4'', temperature = DEFAULT_TEMPERATURE,
          max_tokens = Some 100, timeout_s = 45, max_retries = 5,
          openai_api_key = Some ''test-openai-key'', openai_base_url = ''https://api.openai.com'',
          anthropic_api_key = None, anthropic_api_url = ''https://api.anthropic.com'',
          anthropic_version = ''2023-06-01'', ollama_base_url = ''http://localhost:11434''\<rparr>"
    using from_env_round_trip [of "map_of mixed_case_env" float_of_default DEFAULT_TEMPERATURE
                                  "Some 100" 45 5]
    by (simp add: supplied_def documented_default_def float_of_default_def py_int_samples
          lower_samples mixed_case_env_def)
  show ?thesis using a b by simp
qed

text \<open>
  C8 as stated fails twice.  With the supported provider \<open>ollama\<close> and
  \<open>LLM_TIMEOUT_S=abc\<close> no configuration is built: \<open>int()\<close> raises \<open>ValueError\<close>.  With
  \<open>LLM_PROVIDER=OLLAMA\<close>, which \<open>from_env\<close> accepts, the provider read back is \<open>ollama\<close>,
  not the supplied value.
\<close>

theorem from_env_bad_timeout_counterexample:
  "from_env float_of_default (map_of bad_timeout_env) =
     Inl (Exn ValueError (''invalid literal for int() with base 10: '' @ quote ''abc''))
   \<and> map_sum id provider (from_env float_of_default (map_of upper_case_env)) = Inr ''ollama''"
  by (simp add: from_env_def getenv_def bad_timeout_env_def upper_case_env_def
        DEFAULT_PROVIDER_def str_DEFAULT_TEMPERATURE_def float_of_default_def
        DEFAULT_TIMEOUT_S_def DEFAULT_MAX_RETRIES_def py_int_samples lower_samples)

section \<open>Dispatch to the adapters\<close>

lemma post_error_message:
  assumes "post c url headers js = (Inl e, t)" and "exc_class e = LLMError"
  shows "hd (message e) = CHR ''P''"
proof -
  let ?r = "post_loop c \<lparr>rq_url = url, rq_headers = headers, rq_json = js,
                          rq_timeout = client_timeout_s c\<rparr>
              [1 .. client_max_retries c] 1 None \<lparr>calls = [], sleeps = []\<rparr>"
  obtain x tr where r: "?r = (x, tr)" by (cases ?r)
  show ?thesis
  proof (cases x)
    case (Returned v)
    then show ?thesis using assms r by (simp add: post_def)
  next
    case (Propagated e')
    then have "\<not> caught e'" using r post_loop_propagated by blast
    then show ?thesis using assms r Propagated by (simp add: post_def caught_def)
  next
    case (Exhausted l)
    then show ?thesis using assms r by (cases l) (auto simp: post_def)
  qed
qed

lemma and_then_InlE:
  assumes "and_then r f = Inl e"
  obtains "r = Inl e" | x where "r = Inr x" "f x = Inl e"
  using assms by (cases r) (auto simp: and_then_def)

lemma subscript_key_error:
  "subscript_key x k = Inl e \<Longrightarrow> exc_class e = KeyError \<or> exc_class e = TypeError"
  by (cases x) (auto simp: not_subscriptable_def split: option.splits)

lemma subscript_0_error:
  "subscript_0 x = Inl e \<Longrightarrow>
   exc_class e = KeyError \<or> exc_class e = IndexError \<or> exc_class e = TypeError"
  by (induction x rule: subscript_0.induct) (auto simp: not_subscriptable_def)

lemma OpenAI_parse_error:
  assumes "OpenAI_parse config raw = Inl e"
  shows "hd (message e) = CHR ''O''"
proof -
  let ?r = "and_then (and_then (and_then (subscript_key (JObj raw) ''choices'') subscript_0)
                       (\<lambda>choice. subscript_key choice ''message''))
             (\<lambda>msg. subscript_key msg ''content'')"
  show ?thesis
  proof (cases ?r)
    case (Inr v)
    then show ?thesis using assms by (simp add: OpenAI_parse_def)
  next
    case (Inl e')
    then have "exc_class e' = KeyError \<or> exc_class e' = IndexError \<or> exc_class e' = TypeError"
      by (elim and_then_InlE) (blast dest: subscript_key_error subscript_0_error)+
    then show ?thesis using assms Inl by (auto simp: OpenAI_parse_def)
  qed
qed

lemma join_from_error: "join_from i xs = Inl e \<Longrightarrow> exc_class e = TypeError"
  by (induction i xs rule: join_from.induct) (auto simp: and_then_def split: sum.splits)

lemma Anthropic_parse_error:
  assumes "Anthropic_parse config raw = Inl e"
  shows "hd (message e) = CHR ''A''"
proof -
  let ?r = "and_then (subscript_key (JObj raw) ''content'')
             (\<lambda>blocks. case blocks of
                          JArr bs \<Rightarrow> and_then (join_from 0 (text_items bs)) (\<lambda>t. Inr (strip t))
                        | _ \<Rightarrow> Inl (Exn TypeError ''content is not a list''))"
  show ?thesis
  proof (cases ?r)
    case (Inr v)
    then show ?thesis using assms by (simp add: Anthropic_parse_def)
  next
    case (Inl e')
    then have "exc_class e' = KeyError \<or> exc_class e' = TypeError"
    proof (elim and_then_InlE)
      assume "subscript_key (JObj raw) ''content'' = Inl e'"
      then show ?thesis by (blast dest: subscript_key_error)
    next
      fix x
      assume "(case x of JArr bs \<Rightarrow> and_then (join_from 0 (text_items bs)) (\<lambda>t. Inr (strip t))
               | _ \<Rightarrow> Inl (Exn TypeError ''content is not a list'')) = Inl e'"
      then show ?thesis
        by (cases x) (auto elim!: and_then_InlE dest: join_from_error)
    qed
    then show ?thesis using assms Inl by (auto simp: Anthropic_parse_def)
  qed
qed

lemma Ollama_parse_error:
  "Ollama_parse config raw = Inl e \<Longrightarrow> hd (message e) = CHR ''O''"
  by (auto simp: Ollama_parse_def split: sum.splits)

lemma ensure_dict_error:
  "ensure_dict v name = Inl e \<Longrightarrow> name \<noteq> [] \<Longrightarrow> hd (message e) = hd name"
  by (cases v) (auto simp: ensure_dict_def)

lemma require_error: "require v name = Inl e \<Longrightarrow> exc_class e = LLMAuthError"
  by (auto simp: require_def split: option.splits if_splits)

lemma OpenAIAdapter_chat_error:
  assumes "fst (OpenAIAdapter_chat config messages client) = Inl e" and "exc_class e = LLMError"
  shows "hd (message e) \<noteq> CHR ''U''"
proof (cases "require (openai_api_key config) ''OPENAI_API_KEY''")
  case (Inl e')
  then show ?thesis using assms require_error [OF Inl]
    by (simp add: OpenAIAdapter_chat_def)
next
  case (Inr api_key)
  let ?p = "post client (openai_url config) (Some (OpenAI_headers api_key))
              (Some (JObj (OpenAI_payload config messages)))"
  obtain r tr where p: "?p = (r, tr)" by (cases ?p)
  show ?thesis
  proof (cases r)
    case (Inl e')
    then have "e' = e" using assms Inr p by (simp add: OpenAIAdapter_chat_def)
    then have "?p = (Inl e, tr)" using p Inl by simp
    from post_error_message [OF this assms(2)] show ?thesis by simp
  next
    case v: (Inr v)
    show ?thesis
    proof (cases "ensure_dict v ''openai''")
      case (Inl e')
      then have "e' = e" using assms Inr p v by (simp add: OpenAIAdapter_chat_def)
      then show ?thesis using ensure_dict_error [OF Inl] by simp
    next
      case raw: (Inr raw)
      then have "OpenAI_parse config raw = Inl e"
        using assms Inr p v by (simp add: OpenAIAdapter_chat_def)
      then show ?thesis using OpenAI_parse_error by fastforce
    qed
  qed
qed

lemma AnthropicAdapter_chat_error:
  assumes "fst (AnthropicAdapter_chat config messages client) = Inl e" and "exc_class e = LLMError"
  shows "hd (message e) \<noteq> CHR ''U''"
proof (cases "require (anthropic_api_key config) ''ANTHROPIC_API_KEY''")
  case (Inl e')
  then show ?thesis using assms require_error [OF Inl]
    by (simp add: AnthropicAdapter_chat_def)
next
  case (Inr api_key)
  let ?p = "post client (anthropic_url config) (Some (Anthropic_headers config api_key))
              (Some (JObj (Anthropic_payload config messages)))"
  obtain r tr where p: "?p = (r, tr)" by (cases ?p)
  show ?thesis
  proof (cases r)
    case (Inl e')
    then have "e' = e" using assms Inr p by (simp add: AnthropicAdapter_chat_def)
    then have "?p = (Inl e, tr)" using p Inl by simp
    from post_error_message [OF this assms(2)] show ?thesis by simp
  next
    case v: (Inr v)
    show ?thesis
    proof (cases "ensure_dict v ''anthropic''")
      case (Inl e')
      then have "e' = e" using assms Inr p v by (simp add: AnthropicAdapter_chat_def)
      then show ?thesis using ensure_dict_error [OF Inl] by simp
    next
      case raw: (Inr raw)
      then have "Anthropic_parse config raw = Inl e"
        using assms Inr p v by (simp add: AnthropicAdapter_chat_def)
      then show ?thesis using Anthropic_parse_error by fastforce
    qed
  qed
qed

lemma OllamaAdapter_chat_error:
  assumes "fst (OllamaAdapter_chat config messages client) = Inl e" and "exc_class e = LLMError"
  shows "hd (message e) \<noteq> CHR ''U''"
proof -
  let ?p = "post client (ollama_url config) None (Some (JObj (Ollama_payload config messages)))"
  obtain r tr where p: "?p = (r, tr)" by (cases ?p)
  show ?thesis
  proof (cases r)
    case (Inl e')
    then have "e' = e" using assms p by (simp add: OllamaAdapter_chat_def)
    then have "?p = (Inl e, tr)" using p Inl by simp
    from post_error_message [OF this assms(2)] show ?thesis by simp
  next
    case v: (Inr v)
    show ?thesis
    proof (cases "ensure_dict v ''ollama''")
      case (Inl e')
      then have "e' = e" using assms p v by (simp add: OllamaAdapter_chat_def)
      then show ?thesis using ensure_dict_error [OF Inl] by simp
    next
      case raw: (Inr raw)
      then have "Ollama_parse config raw = Inl e"
        using assms p v by (simp add: OllamaAdapter_chat_def)
      then show ?thesis using Ollama_parse_error by fastforce
    qed
  qed
qed

lemma adapter_chat_error:
  assumes "fst (adapter_chat ad config messages client) = Inl e" and "exc_class e = LLMError"
  shows "hd (message e) \<noteq> CHR ''U''"
  using assms OpenAIAdapter_chat_error AnthropicAdapter_chat_error OllamaAdapter_chat_error
  by (cases ad) auto

lemma from_env_provider:
  "from_env py_float env = Inr config \<Longrightarrow>
   provider config \<in> set [''openai'', ''anthropic'', ''ollama'']"
  by (auto simp: from_env_def Let_def split: if_splits option.splits sum.splits)

text \<open>
  C10.  For a configuration that \<open>from_env\<close> returns, the adapter table of the client
  built from it has an entry for the provider, so \<open>chat\<close> is the \<open>chat\<close> of that adapter,
  and \<open>chat\<close> never fails with the \<open>LLMError\<close> "Unsupported provider: ...".
\<close>

theorem from_env_config_has_adapter:
  assumes "from_env py_float env = Inr config"
  shows "(\<exists>ad. map_of (llm_adapters (LLM_init config sess)) (provider (cfg (LLM_init config sess)))
                 = Some ad
              \<and> chat (LLM_init config sess) messages
                 = adapter_chat ad config messages (llm_client (LLM_init config sess)))
       \<and> fst (chat (LLM_init config sess) messages)
           \<noteq> Inl (Exn LLMError (''Unsupported provider: '' @ provider config))"
proof -
  from from_env_provider [OF assms]
  obtain ad where ad: "map_of (llm_adapters (LLM_init config sess)) (provider config) = Some ad"
    by (auto simp: LLM_init_def)
  have c: "chat (LLM_init config sess) messages
             = adapter_chat ad config messages (llm_client (LLM_init config sess))"
    using ad by (simp add: chat_def LLM_init_def)
  have "fst (chat (LLM_init config sess) messages)
           \<noteq> Inl (Exn LLMError (''Unsupported provider: '' @ provider config))"
    using adapter_chat_error [of ad config messages "llm_client (LLM_init config sess)"
                                 "Exn LLMError (''Unsupported provider: '' @ provider config)"]
    by (auto simp: c)
  then show ?thesis using ad c by (simp add: LLM_init_def)
qed

theorem from_env_config_has_adapter_witness:
  "from_env float_of_default Map.empty = Inr base_config
   \<and> map_of (llm_adapters (LLM_init base_config (always (ok_response (JObj [])))))
        (provider base_config) = Some OllamaAdapter
   \<and> fst (chat (LLM_init base_config (always (ok_response (JObj [])))) user_test)
        \<noteq> Inl (Exn LLMError ''Unsupported provider: ollama'')"
proof -
  have e: "from_env float_of_default Map.empty = Inr base_config"
    by (simp add: from_env_def getenv_def DEFAULT_PROVIDER_def lower_samples
          str_DEFAULT_TEMPERATURE_def float_of_default_def DEFAULT_TIMEOUT_S_def
          DEFAULT_MAX_RETRIES_def py_int_samples base_config_def DEFAULT_MODEL_def)
  have p: "provider base_config = ''ollama''"
    by (simp add: base_config_def)
  note t = from_env_config_has_adapter [OF e, of "always (ok_response (JObj []))" user_test]
  have a: "map_of (llm_adapters (LLM_init base_config (always (ok_response (JObj [])))))
        (provider base_config) = Some OllamaAdapter"
    by (simp add: LLM_init_def p)
  have b: "fst (chat (LLM_init base_config (always (ok_response (JObj [])))) user_test)
        \<noteq> Inl (Exn LLMError ''Unsupported provider: ollama'')"
    using t [THEN conjunct2] by (simp add: p)
  show ?thesis using e a b by simp
qed

end
